theory Spec2Isabelle
  imports Complex_Main
begin

section \<open>Pose gesture detection: data model\<close>

text \<open>
  The gesture hook of the repository (\<^verbatim>\<open>usePoseGesture\<close>, \<^verbatim>\<open>estimateGesture\<close>,
  \<^verbatim>\<open>computeTierSignal\<close>) and the challenge matcher (\<^verbatim>\<open>checkPoseMatch\<close>) are embedded
  as HOL functions. A JavaScript \<^verbatim>\<open>number\<close> that holds a measurement or a time is a
  \<^typ>\<open>real\<close>: arithmetic is exact, the rounding of IEEE doubles and the values NaN and
  Infinity are outside the model. A \<^verbatim>\<open>number\<close> that counts frames is a \<^typ>\<open>nat\<close>.
  A value that may be \<^verbatim>\<open>null\<close> or \<^verbatim>\<open>undefined\<close> is an \<^typ>\<open>'a option\<close>. The runtime object
  the source mutates in place is passed in and returned.
\<close>

datatype PoseGesture = IDLE | JUMP | DUCK

datatype PoseTrackingStatus =
  StatusIdle | StatusLoading | StatusCalibrating | StatusTracking | StatusNoPerson | StatusError

datatype TrackingTier = Tier1 | Tier2 | Tier3

text \<open>Of a \<^verbatim>\<open>NormalizedLandmark\<close> the code reads \<^verbatim>\<open>x\<close>, \<^verbatim>\<open>y\<close> and \<^verbatim>\<open>visibility\<close> only.\<close>

record NormalizedLandmark =
  lm_x :: real
  lm_y :: real
  lm_visibility :: real

text \<open>\<^verbatim>\<open>UsePoseGestureState\<close>; its field \<^verbatim>\<open>trackingTier\<close> is \<open>publishedTier\<close> here, since the
  runtime has a field of the same name.\<close>

record UsePoseGestureState =
  gesture :: PoseGesture
  status :: PoseTrackingStatus
  calibrationProgress :: real
  errorMessage :: "string option"
  publishedTier :: TrackingTier

text \<open>The argument of \<^verbatim>\<open>publish\<close>: every field may be absent. For \<^verbatim>\<open>errorMessage\<close> the
  source's \<^verbatim>\<open>??\<close> treats \<^verbatim>\<open>null\<close> like an absent field, so one \<open>option\<close> covers both.\<close>

record PartialState =
  p_gesture :: "PoseGesture option"
  p_status :: "PoseTrackingStatus option"
  p_calibrationProgress :: "real option"
  p_errorMessage :: "string option"
  p_trackingTier :: "TrackingTier option"

record GestureRuntime =
  baseline :: "real option"
  calibrationBuffer :: "real list"
  stableGesture :: PoseGesture
  pendingGesture :: "PoseGesture option"
  pendingSince :: real
  missingFrames :: nat
  lastDetectAt :: real
  lastSignal :: "real option"
  driftFrames :: nat
  idleFrames :: nat
  recalibrating :: bool
  trackingTier :: TrackingTier

record TierResult =
  tier :: TrackingTier
  signal :: real
  thresholdMultiplier :: real

subsection \<open>Constants\<close>

definition DETECTION_INTERVAL_MS :: real where "DETECTION_INTERVAL_MS = 34"
definition BASELINE_SMOOTHING :: real where "BASELINE_SMOOTHING = 0.85"
definition JUMP_THRESHOLD :: real where "JUMP_THRESHOLD = 0.10"
definition QUICK_JUMP_THRESHOLD :: real where "QUICK_JUMP_THRESHOLD = 0.065"
definition QUICK_JUMP_VELOCITY :: real where "QUICK_JUMP_VELOCITY = 0.010"
definition DUCK_THRESHOLD :: real where "DUCK_THRESHOLD = 0.09"
definition CALIBRATION_FRAMES :: nat where "CALIBRATION_FRAMES = 15"
definition DEBOUNCE_MS :: real where "DEBOUNCE_MS = 90"
definition MIN_VISIBILITY :: real where "MIN_VISIBILITY = 0.18"
definition MAX_MISSING_FRAMES :: nat where "MAX_MISSING_FRAMES = 20"
definition RECALIBRATION_DRIFT_THRESHOLD :: real where "RECALIBRATION_DRIFT_THRESHOLD = 0.35"
definition RECALIBRATION_FRAMES :: nat where "RECALIBRATION_FRAMES = 10"
definition IDLE_ACCELERATION_FRAMES :: nat where "IDLE_ACCELERATION_FRAMES = 60"
definition IDLE_SMOOTHING :: real where "IDLE_SMOOTHING = 0.75"

definition INITIAL_STATE :: UsePoseGestureState where
  "INITIAL_STATE =
     \<lparr>gesture = IDLE, status = StatusIdle, calibrationProgress = 0, errorMessage = None,
      publishedTier = Tier1\<rparr>"

definition createRuntime :: GestureRuntime where
  "createRuntime =
     \<lparr>baseline = None, calibrationBuffer = [], stableGesture = IDLE, pendingGesture = None,
      pendingSince = 0, missingFrames = 0, lastDetectAt = 0, lastSignal = None,
      driftFrames = 0, idleFrames = 0, recalibrating = False, trackingTier = Tier1\<rparr>"

section \<open>Tier signal extraction\<close>

text \<open>\<^verbatim>\<open>landmarks[i]\<close>: \<^verbatim>\<open>undefined\<close> beyond the end of the array.\<close>

definition landmarkAt :: "NormalizedLandmark list \<Rightarrow> nat \<Rightarrow> NormalizedLandmark option" where
  "landmarkAt landmarks i = (if i < length landmarks then Some (landmarks ! i) else None)"

text \<open>The filter predicate \<^verbatim>\<open>point && point.visibility >= MIN_VISIBILITY\<close>; the points
  that pass it are kept in order.\<close>

fun visiblePoints :: "NormalizedLandmark option list \<Rightarrow> NormalizedLandmark list" where
  "visiblePoints [] = []"
| "visiblePoints (None # ps) = visiblePoints ps"
| "visiblePoints (Some point # ps) =
     (if lm_visibility point \<ge> MIN_VISIBILITY then point # visiblePoints ps
      else visiblePoints ps)"

text \<open>\<^verbatim>\<open>hasShoulder\<close>, carrying the two shoulders when it is true.\<close>

definition shoulderPair ::
  "NormalizedLandmark option \<Rightarrow> NormalizedLandmark option \<Rightarrow>
   (NormalizedLandmark \<times> NormalizedLandmark) option" where
  "shoulderPair leftShoulder rightShoulder =
     (case (leftShoulder, rightShoulder) of
        (Some l, Some r) \<Rightarrow>
          if lm_visibility l \<ge> MIN_VISIBILITY \<and> lm_visibility r \<ge> MIN_VISIBILITY
          then Some (l, r) else None
      | _ \<Rightarrow> None)"

text \<open>\<^verbatim>\<open>Math.max(...vs)\<close> and \<^verbatim>\<open>Math.min(...vs)\<close> on a non-empty array (the code calls
  them on at least two values).\<close>

fun spreadMax :: "real list \<Rightarrow> real" where
  "spreadMax (v # vs) = foldl max v vs"

fun spreadMin :: "real list \<Rightarrow> real" where
  "spreadMin (v # vs) = foldl min v vs"

text \<open>\<^verbatim>\<open>headCandidates.reduce((sum, point) => sum + point.y, 0) / headCandidates.length\<close>\<close>

definition headMeanY :: "NormalizedLandmark list \<Rightarrow> real" where
  "headMeanY headCandidates =
     foldl (\<lambda>sum point. sum + lm_y point) 0 headCandidates / real (length headCandidates)"

definition computeTierSignal :: "NormalizedLandmark list \<Rightarrow> TierResult option" where
  "computeTierSignal landmarks =
     (let nose = landmarkAt landmarks 0;
          leftEar = landmarkAt landmarks 7;
          rightEar = landmarkAt landmarks 8;
          leftShoulder = landmarkAt landmarks 11;
          rightShoulder = landmarkAt landmarks 12;
          headCandidates = visiblePoints [nose, leftEar, rightEar];
          hasShoulder = shoulderPair leftShoulder rightShoulder;
          shoulderMidY = (case hasShoulder of Some (l, r) \<Rightarrow> (lm_y l + lm_y r) / 2 | None \<Rightarrow> 0);
          shoulderSpan =
            (case hasShoulder of Some (l, r) \<Rightarrow> max 0.09 \<bar>lm_x r - lm_x l\<bar> | None \<Rightarrow> 0)
      in if hasShoulder \<noteq> None \<and> length headCandidates > 0 then
           let headY = headMeanY headCandidates;
               upperBodySignal = (headY * 0.52 + shoulderMidY * 0.48) / shoulderSpan
           in Some \<lparr>tier = Tier1, signal = upperBodySignal, thresholdMultiplier = 1.0\<rparr>
         else if length headCandidates \<ge> 2 then
           let headY = headMeanY headCandidates;
               headXs = map lm_x headCandidates;
               headSpan = max 0.06 (spreadMax headXs - spreadMin headXs);
               headSignal = headY / headSpan
           in Some \<lparr>tier = Tier2, signal = headSignal, thresholdMultiplier = 1.2\<rparr>
         else if hasShoulder \<noteq> None then
           let shoulderSignal = shoulderMidY / shoulderSpan
           in Some \<lparr>tier = Tier3, signal = shoulderSignal, thresholdMultiplier = 0.85\<rparr>
         else None)"

section \<open>Per-frame gesture estimation\<close>

text \<open>The calibration branch of \<^verbatim>\<open>estimateGesture\<close> (initial calibration or recalibration):
  push the sample, and set the baseline to the mean once enough samples are there.\<close>

definition calibrationStep :: "real \<Rightarrow> GestureRuntime \<Rightarrow> GestureRuntime" where
  "calibrationStep sig runtime =
     (let runtime = runtime\<lparr>calibrationBuffer := calibrationBuffer runtime @ [sig]\<rparr>;
          needed = (if recalibrating runtime then RECALIBRATION_FRAMES else CALIBRATION_FRAMES)
      in if length (calibrationBuffer runtime) \<ge> needed then
           let sum = foldl (\<lambda>acc v. acc + v) 0 (calibrationBuffer runtime)
           in runtime\<lparr>baseline := Some (sum / real (length (calibrationBuffer runtime))),
                      calibrationBuffer := [], recalibrating := False,
                      driftFrames := 0, idleFrames := 0\<rparr>
         else runtime)"

text \<open>Baseline adaptation; it runs only past the calibration branch, where
  \<^verbatim>\<open>runtime.baseline\<close> is not \<^verbatim>\<open>null\<close>.\<close>

definition adaptBaseline :: "real \<Rightarrow> GestureRuntime \<Rightarrow> GestureRuntime" where
  "adaptBaseline sig runtime =
     (if stableGesture runtime = IDLE then
        let runtime = runtime\<lparr>idleFrames := idleFrames runtime + 1\<rparr>;
            smoothing = (if idleFrames runtime > IDLE_ACCELERATION_FRAMES
                         then IDLE_SMOOTHING else BASELINE_SMOOTHING)
        in runtime\<lparr>baseline := Some (the (baseline runtime) * smoothing + sig * (1 - smoothing))\<rparr>
      else runtime\<lparr>idleFrames := 0\<rparr>)"

text \<open>The raw candidate, from the baseline at that point, the signal, the tier's
  threshold multiplier and the rise velocity.\<close>

definition gestureCandidate :: "real \<Rightarrow> real \<Rightarrow> real \<Rightarrow> real \<Rightarrow> PoseGesture" where
  "gestureCandidate b sig mult riseVelocity =
     (let jumpThreshold = JUMP_THRESHOLD * mult;
          quickJumpThreshold = QUICK_JUMP_THRESHOLD * mult;
          quickJumpVelocity = QUICK_JUMP_VELOCITY * mult;
          duckThreshold = DUCK_THRESHOLD * mult;
          jumpDelta = b - sig;
          duckDelta = sig - b
      in if jumpDelta > jumpThreshold \<or>
            (jumpDelta > quickJumpThreshold \<and> riseVelocity > quickJumpVelocity) then JUMP
         else if duckDelta > duckThreshold then DUCK
         else IDLE)"

text \<open>The debounce at the end of \<^verbatim>\<open>estimateGesture\<close>.\<close>

definition debounce :: "PoseGesture \<Rightarrow> real \<Rightarrow> GestureRuntime \<Rightarrow> PoseGesture \<times> GestureRuntime" where
  "debounce candidate now runtime =
     (if candidate = stableGesture runtime then
        (stableGesture runtime, runtime\<lparr>pendingGesture := None\<rparr>)
      else if pendingGesture runtime \<noteq> Some candidate then
        (stableGesture runtime, runtime\<lparr>pendingGesture := Some candidate, pendingSince := now\<rparr>)
      else
        let runtime = (if now - pendingSince runtime \<ge> DEBOUNCE_MS
                       then runtime\<lparr>stableGesture := candidate, pendingGesture := None\<rparr>
                       else runtime)
        in (stableGesture runtime, runtime))"

text \<open>The part of \<^verbatim>\<open>estimateGesture\<close> after the calibration branch: baseline adaptation,
  drift detection, classification and debounce.\<close>

definition trackStep ::
  "TierResult \<Rightarrow> real \<Rightarrow> real \<Rightarrow> GestureRuntime \<Rightarrow> PoseGesture \<times> GestureRuntime" where
  "trackStep tierResult riseVelocity now runtime =
     (let runtime = adaptBaseline (signal tierResult) runtime;
          drift = \<bar>signal tierResult - the (baseline runtime)\<bar>;
          isDrift = (stableGesture runtime = IDLE \<and> drift > RECALIBRATION_DRIFT_THRESHOLD);
          runtime = (if isDrift then runtime\<lparr>driftFrames := driftFrames runtime + 1\<rparr>
                     else runtime\<lparr>driftFrames := 0\<rparr>)
      in if isDrift \<and> driftFrames runtime \<ge> CALIBRATION_FRAMES then
           (IDLE, runtime\<lparr>recalibrating := True, calibrationBuffer := [signal tierResult],
                           driftFrames := 0\<rparr>)
         else
           debounce (gestureCandidate (the (baseline runtime)) (signal tierResult)
                       (thresholdMultiplier tierResult) riseVelocity) now runtime)"

definition estimateGesture ::
  "NormalizedLandmark list \<Rightarrow> GestureRuntime \<Rightarrow> real \<Rightarrow> PoseGesture \<times> GestureRuntime" where
  "estimateGesture landmarks runtime now =
     (case computeTierSignal landmarks of
        None \<Rightarrow>
          (IDLE, runtime\<lparr>missingFrames := missingFrames runtime + 1, lastSignal := None\<rparr>)
      | Some tierResult \<Rightarrow>
          (let runtime = runtime\<lparr>missingFrames := 0, trackingTier := tier tierResult\<rparr>;
               riseVelocity =
                 (case lastSignal runtime of None \<Rightarrow> 0 | Some l \<Rightarrow> l - signal tierResult);
               runtime = runtime\<lparr>lastSignal := Some (signal tierResult)\<rparr>
           in if baseline runtime = None \<or> recalibrating runtime then
                (IDLE, calibrationStep (signal tierResult) runtime)
              else trackStep tierResult riseVelocity now runtime))"

section \<open>The detection loop\<close>

text \<open>\<^verbatim>\<open>publish\<close>: the fields given replace the current ones. The source skips the
  write when nothing changes; the state it holds afterwards is the same either way.\<close>

definition publish :: "PartialState \<Rightarrow> UsePoseGestureState \<Rightarrow> UsePoseGestureState" where
  "publish partial current =
     \<lparr>gesture = (case p_gesture partial of Some v \<Rightarrow> v | None \<Rightarrow> gesture current),
      status = (case p_status partial of Some v \<Rightarrow> v | None \<Rightarrow> status current),
      calibrationProgress =
        (case p_calibrationProgress partial of Some v \<Rightarrow> v | None \<Rightarrow> calibrationProgress current),
      errorMessage =
        (case p_errorMessage partial of Some v \<Rightarrow> Some v | None \<Rightarrow> errorMessage current),
      publishedTier =
        (case p_trackingTier partial of Some v \<Rightarrow> v | None \<Rightarrow> publishedTier current)\<rparr>"

text \<open>The two \<^verbatim>\<open>publish({status: "no-person", ...})\<close> calls have the same argument;
  \<^verbatim>\<open>runtime.baseline ? 1 : ...\<close> tests truthiness, so a baseline of 0 counts as unset.\<close>

definition noPersonUpdate :: "GestureRuntime \<Rightarrow> PartialState" where
  "noPersonUpdate runtime =
     \<lparr>p_gesture = Some IDLE, p_status = Some StatusNoPerson,
      p_calibrationProgress =
        Some (if baseline runtime \<noteq> None \<and> baseline runtime \<noteq> Some 0 then 1
              else real (length (calibrationBuffer runtime)) / real CALIBRATION_FRAMES),
      p_errorMessage = None, p_trackingTier = Some (trackingTier runtime)\<rparr>"

text \<open>What \<^verbatim>\<open>landmarker.detectForVideo\<close> does on a frame: it throws (with a message), or
  returns a result whose \<^verbatim>\<open>landmarks[0]\<close> is a landmark array or \<^verbatim>\<open>undefined\<close>.\<close>

datatype Detection = DetectionThrows string | DetectionResult "NormalizedLandmark list option"

text \<open>One run of \<^verbatim>\<open>loop\<close> past the detection-interval check, with the video ready and the
  landmarker loaded: a processed frame.\<close>

definition processFrame ::
  "Detection \<Rightarrow> real \<Rightarrow> GestureRuntime \<times> UsePoseGestureState \<Rightarrow>
   GestureRuntime \<times> UsePoseGestureState" where
  "processFrame detection now rs =
     (let runtime = (fst rs)\<lparr>lastDetectAt := now\<rparr>; state = snd rs
      in case detection of
           DetectionThrows message \<Rightarrow>
             (runtime,
              publish \<lparr>p_gesture = Some IDLE, p_status = Some StatusError,
                       p_calibrationProgress = Some 0, p_errorMessage = Some message,
                       p_trackingTier = Some Tier1\<rparr> state)
         | DetectionResult result \<Rightarrow>
             (if result = None \<or> length (the result) < 13 then
                let runtime = runtime\<lparr>missingFrames := missingFrames runtime + 1\<rparr>
                in (runtime,
                    if missingFrames runtime > MAX_MISSING_FRAMES
                    then publish (noPersonUpdate runtime) state else state)
              else
                let (g, runtime) = estimateGesture (the result) runtime now
                in if missingFrames runtime > MAX_MISSING_FRAMES then
                     (runtime, publish (noPersonUpdate runtime) state)
                   else
                     let calibrated = (baseline runtime \<noteq> None \<and> \<not> recalibrating runtime);
                         calFrames = (if recalibrating runtime then RECALIBRATION_FRAMES
                                      else CALIBRATION_FRAMES)
                     in (runtime,
                         publish
                           \<lparr>p_gesture = Some g,
                            p_status = Some (if calibrated then StatusTracking
                                             else StatusCalibrating),
                            p_calibrationProgress =
                              Some (if calibrated then 1
                                    else real (length (calibrationBuffer runtime)) / real calFrames),
                            p_errorMessage = None,
                            p_trackingTier = Some (trackingTier runtime)\<rparr> state)))"

text \<open>One run of \<^verbatim>\<open>loop\<close>: nothing happens before the detection interval has elapsed.\<close>

definition loopTick ::
  "Detection \<Rightarrow> real \<Rightarrow> GestureRuntime \<times> UsePoseGestureState \<Rightarrow>
   GestureRuntime \<times> UsePoseGestureState" where
  "loopTick detection now rs =
     (if now - lastDetectAt (fst rs) < DETECTION_INTERVAL_MS then rs
      else processFrame detection now rs)"

text \<open>A sequence of processed frames, each a detection and its timestamp.\<close>

fun processFrames ::
  "(Detection \<times> real) list \<Rightarrow> GestureRuntime \<times> UsePoseGestureState \<Rightarrow>
   GestureRuntime \<times> UsePoseGestureState" where
  "processFrames [] rs = rs"
| "processFrames ((detection, now) # frames) rs = processFrames frames (processFrame detection now rs)"

text \<open>A sequence of calls of \<^verbatim>\<open>estimateGesture\<close> on one runtime.\<close>

fun estimateGestures ::
  "(NormalizedLandmark list \<times> real) list \<Rightarrow> GestureRuntime \<Rightarrow> GestureRuntime" where
  "estimateGestures [] runtime = runtime"
| "estimateGestures ((landmarks, now) # frames) runtime =
     estimateGestures frames (snd (estimateGesture landmarks runtime now))"

section \<open>The challenge matcher\<close>

text \<open>Of a \<^verbatim>\<open>PoseChallenge\<close> the matcher reads the target, the hold time and the timeout;
  the identifier and the display texts are left out.\<close>

record PoseChallenge =
  targetGesture :: PoseGesture
  holdMs :: real
  timeoutMs :: real

definition CHALLENGES :: "PoseChallenge list" where
  "CHALLENGES =
     [\<lparr>targetGesture = IDLE, holdMs = 2000, timeoutMs = 6000\<rparr>,
      \<lparr>targetGesture = JUMP, holdMs = 0, timeoutMs = 8000\<rparr>,
      \<lparr>targetGesture = DUCK, holdMs = 0, timeoutMs = 8000\<rparr>]"

record MatchResult =
  matched :: bool
  holdProgress :: real

definition checkPoseMatch ::
  "PoseChallenge \<Rightarrow> PoseGesture \<Rightarrow> real option \<Rightarrow> real \<Rightarrow> MatchResult" where
  "checkPoseMatch challenge currentGesture holdStartTime now =
     (let gestureMatches = (currentGesture = targetGesture challenge)
      in if \<not> gestureMatches then \<lparr>matched = False, holdProgress = 0\<rparr>
         else if holdMs challenge = 0 then \<lparr>matched = True, holdProgress = 1\<rparr>
         else case holdStartTime of
                None \<Rightarrow> \<lparr>matched = False, holdProgress = 0\<rparr>
              | Some t \<Rightarrow>
                  let held = now - t;
                      progress = min 1 (held / holdMs challenge)
                  in \<lparr>matched = (progress \<ge> 1), holdProgress = progress\<rparr>)"

text \<open>The pose-matching effect of \<^verbatim>\<open>WelcomeScene\<close>, run in the calibrate phase on a current
  challenge while no advance is under way. It reads and writes \<^verbatim>\<open>holdStartRef\<close> and the
  \<^verbatim>\<open>holdProgress\<close> state, and may call \<^verbatim>\<open>advanceChallenge\<close>.\<close>

record HoldRefs =
  holdStartRef :: "real option"
  holdProgressState :: real

datatype Advance = NoAdvance | AdvanceTimeout | AdvanceMatched

definition poseMatchEffect ::
  "PoseChallenge \<Rightarrow> real \<Rightarrow> PoseGesture \<Rightarrow> PoseTrackingStatus \<Rightarrow> real \<Rightarrow> HoldRefs \<Rightarrow>
   Advance \<times> HoldRefs" where
  "poseMatchEffect currentChallenge challengeStart poseGesture poseStatus now refs =
     (if now - challengeStart > timeoutMs currentChallenge then (AdvanceTimeout, refs)
      else
        let refs =
              (if poseGesture = targetGesture currentChallenge \<and> poseStatus = StatusTracking then
                 (if holdStartRef refs = None then refs\<lparr>holdStartRef := Some now\<rparr> else refs)
               else if holdMs currentChallenge > 0 then
                 refs\<lparr>holdStartRef := None, holdProgressState := 0\<rparr>
               else refs);
            result = checkPoseMatch currentChallenge
                       (if poseStatus = StatusTracking then poseGesture else IDLE)
                       (holdStartRef refs) now;
            refs = refs\<lparr>holdProgressState := holdProgress result\<rparr>
        in (if matched result then AdvanceMatched else NoAdvance, refs))"

section \<open>Notions used in the statements\<close>

text \<open>Tier extraction as the specification words it: a landmark is usable when it is
  there with visibility at least 0.18; the head points are the usable ones among nose (0),
  left ear (7) and right ear (8); the shoulders are landmarks 11 and 12.\<close>

definition usable :: "NormalizedLandmark list \<Rightarrow> nat \<Rightarrow> bool" where
  "usable landmarks i = (i < length landmarks \<and> lm_visibility (landmarks ! i) \<ge> 0.18)"

definition specTierSignal :: "NormalizedLandmark list \<Rightarrow> TierResult option" where
  "specTierSignal landmarks =
     (let headPoints = filter (usable landmarks) [0, 7, 8];
          bothShoulders = (usable landmarks 11 \<and> usable landmarks 12);
          meanHeadY = sum_list (map (\<lambda>i. lm_y (landmarks ! i)) headPoints) / real (length headPoints);
          headSpanX = Max (set (map (\<lambda>i. lm_x (landmarks ! i)) headPoints))
                      - Min (set (map (\<lambda>i. lm_x (landmarks ! i)) headPoints));
          shoulderMidY = (lm_y (landmarks ! 11) + lm_y (landmarks ! 12)) / 2;
          shoulderSpanX = \<bar>lm_x (landmarks ! 12) - lm_x (landmarks ! 11)\<bar>
      in if bothShoulders \<and> headPoints \<noteq> [] then
           Some \<lparr>tier = Tier1,
                 signal = (0.52 * meanHeadY + 0.48 * shoulderMidY) / max shoulderSpanX 0.09,
                 thresholdMultiplier = 1.0\<rparr>
         else if length headPoints \<ge> 2 then
           Some \<lparr>tier = Tier2, signal = meanHeadY / max headSpanX 0.06,
                 thresholdMultiplier = 1.2\<rparr>
         else if bothShoulders then
           Some \<lparr>tier = Tier3, signal = shoulderMidY / max shoulderSpanX 0.09,
                 thresholdMultiplier = 0.85\<rparr>
         else None)"

text \<open>A detection that gives the loop no usable signal: the detector returns no
  landmarks or fewer than 13, or tier extraction fails on them. A detection that throws
  is not one of them.\<close>

fun failedDetection :: "Detection \<Rightarrow> bool" where
  "failedDetection (DetectionThrows message) = False"
| "failedDetection (DetectionResult None) = True"
| "failedDetection (DetectionResult (Some landmarks)) =
     (length landmarks < 13 \<or> computeTierSignal landmarks = None)"

text \<open>The signal the loop obtains from a landmark array: none when the array has fewer
  than 13 points or tier extraction fails. A frame of a run is a landmark array with its
  timestamp; \<open>detected\<close> makes it the detection the loop processes.\<close>

definition usableSignal :: "NormalizedLandmark list \<Rightarrow> real option" where
  "usableSignal landmarks =
     (if length landmarks < 13 then None else map_option signal (computeTierSignal landmarks))"

definition detected :: "NormalizedLandmark list \<times> real \<Rightarrow> Detection \<times> real" where
  "detected f = (DetectionResult (Some (fst f)), snd f)"

text \<open>A drift frame: a processed frame with a usable signal, taken while tracking with the
  stable gesture IDLE, whose signal differs from the baseline, as adapted on that frame, by
  more than 0.35. A drift run is a sequence of frames each of which is a drift frame for
  the runtime it meets.\<close>

definition driftFrame :: "NormalizedLandmark list \<Rightarrow> GestureRuntime \<Rightarrow> bool" where
  "driftFrame landmarks rt =
     (case usableSignal landmarks of
        None \<Rightarrow> False
      | Some x \<Rightarrow>
          baseline rt \<noteq> None \<and> \<not> recalibrating rt \<and> stableGesture rt = IDLE \<and>
          \<bar>x - the (baseline (adaptBaseline x rt))\<bar> > 0.35)"

fun driftRun ::
  "(NormalizedLandmark list \<times> real) list \<Rightarrow> GestureRuntime \<times> UsePoseGestureState \<Rightarrow> bool" where
  "driftRun [] rs = True"
| "driftRun (f # frames) rs =
     (driftFrame (fst f) (fst rs) \<and>
      driftRun frames (processFrame (DetectionResult (Some (fst f))) (snd f) rs))"

text \<open>The raw candidate of a processed frame: the value of \<^verbatim>\<open>candidate\<close> that
  \<^verbatim>\<open>estimateGesture\<close> hands to its debounce. There is none when the frame has no usable
  signal, is taken in calibration mode, or enters recalibration.\<close>

definition rawCandidate :: "NormalizedLandmark list \<Rightarrow> GestureRuntime \<Rightarrow> PoseGesture option" where
  "rawCandidate landmarks rt =
     (if length landmarks < 13 \<or> baseline rt = None \<or> recalibrating rt then None
      else case computeTierSignal landmarks of
             None \<Rightarrow> None
           | Some tr \<Rightarrow>
               let b = the (baseline (adaptBaseline (signal tr) rt))
               in if stableGesture rt = IDLE \<and>
                     \<bar>signal tr - b\<bar> > RECALIBRATION_DRIFT_THRESHOLD \<and>
                     driftFrames rt + 1 \<ge> CALIBRATION_FRAMES
                  then None
                  else Some (gestureCandidate b (signal tr) (thresholdMultiplier tr)
                               (case lastSignal rt of None \<Rightarrow> 0 | Some l \<Rightarrow> l - signal tr)))"

section \<open>Concrete frames and runtimes\<close>

text \<open>Landmark arrays of thirteen points for concrete runs: the five points the code reads
  are given, the others are hidden. A tier-1 frame with signal \<open>s\<close> has its nose and both
  shoulders at height \<open>s\<close> and shoulders one unit apart.\<close>

definition hiddenPoint :: NormalizedLandmark where
  "hiddenPoint = \<lparr>lm_x = 0, lm_y = 0, lm_visibility = 0\<rparr>"

definition seenPoint :: "real \<Rightarrow> real \<Rightarrow> NormalizedLandmark" where
  "seenPoint px py = \<lparr>lm_x = px, lm_y = py, lm_visibility = 1\<rparr>"

definition poseFrame ::
  "NormalizedLandmark \<Rightarrow> NormalizedLandmark \<Rightarrow> NormalizedLandmark \<Rightarrow> NormalizedLandmark \<Rightarrow>
   NormalizedLandmark \<Rightarrow> NormalizedLandmark list" where
  "poseFrame nose leftEar rightEar leftShoulder rightShoulder =
     [nose, hiddenPoint, hiddenPoint, hiddenPoint, hiddenPoint, hiddenPoint, hiddenPoint,
      leftEar, rightEar, hiddenPoint, hiddenPoint, leftShoulder, rightShoulder]"

definition tier1Frame :: "real \<Rightarrow> NormalizedLandmark list" where
  "tier1Frame s = poseFrame (seenPoint 0.5 s) hiddenPoint hiddenPoint (seenPoint 0 s) (seenPoint 1 s)"

definition emptyFrame :: "NormalizedLandmark list" where
  "emptyFrame = poseFrame hiddenPoint hiddenPoint hiddenPoint hiddenPoint hiddenPoint"

text \<open>The state the hook publishes when it is enabled, the runtime after an initial
  calibration on the constant signal \<open>b\<close> whose last frame was detected at time \<open>t\<close>, and the
  state published then.\<close>

definition loadingState :: UsePoseGestureState where
  "loadingState = publish \<lparr>p_gesture = Some IDLE, p_status = Some StatusLoading,
      p_calibrationProgress = Some 0, p_errorMessage = None, p_trackingTier = Some Tier1\<rparr> INITIAL_STATE"

definition trackingRuntime :: "real \<Rightarrow> real \<Rightarrow> GestureRuntime" where
  "trackingRuntime b t = createRuntime\<lparr>baseline := Some b, lastSignal := Some b, lastDetectAt := t\<rparr>"

definition trackingState :: UsePoseGestureState where
  "trackingState =
     \<lparr>gesture = IDLE, status = StatusTracking, calibrationProgress = 1, errorMessage = None,
      publishedTier = Tier1\<rparr>"

text \<open>Fifteen tier-1 frames whose signal swings between 1 and 0, 34 ms apart, after a
  calibration that ended at time 510; and \<open>n\<close> frames of signal 0.5 after them.\<close>

definition swingFrames :: "(NormalizedLandmark list \<times> real) list" where
  "swingFrames = map (\<lambda>k. (tier1Frame (if odd k then 1 else 0), 510 + 34 * real k)) [1..<16]"

definition settleFrames :: "nat \<Rightarrow> (NormalizedLandmark list \<times> real) list" where
  "settleFrames n = map (\<lambda>k. (tier1Frame 0.5, 1020 + 34 * real k)) [1..<Suc n]"

text \<open>\<open>n\<close> tier-1 frames of constant signal \<open>s\<close>, \<open>dt\<close> apart, after time \<open>t0\<close>.\<close>

definition holdFrames :: "real \<Rightarrow> real \<Rightarrow> real \<Rightarrow> nat \<Rightarrow> (NormalizedLandmark list \<times> real) list" where
  "holdFrames s t0 dt n = map (\<lambda>k. (tier1Frame s, t0 + dt * real k)) [1..<Suc n]"

text \<open>The runtime after a calibration on 0.5 and three frames of signal 0.30, 34 ms apart:
  JUMP is pending since the first of them.\<close>

definition pendingJumpRuntime :: GestureRuntime where
  "pendingJumpRuntime =
     (trackingRuntime 0.422825 612)\<lparr>pendingGesture := Some JUMP, pendingSince := 544,
        lastSignal := Some 0.30, idleFrames := 3\<rparr>"

section \<open>Auxiliary facts\<close>

lemmas constants_defs =
  DETECTION_INTERVAL_MS_def BASELINE_SMOOTHING_def JUMP_THRESHOLD_def QUICK_JUMP_THRESHOLD_def
  QUICK_JUMP_VELOCITY_def DUCK_THRESHOLD_def CALIBRATION_FRAMES_def DEBOUNCE_MS_def
  MIN_VISIBILITY_def MAX_MISSING_FRAMES_def RECALIBRATION_DRIFT_THRESHOLD_def
  RECALIBRATION_FRAMES_def IDLE_ACCELERATION_FRAMES_def IDLE_SMOOTHING_def

lemma foldl_add_sum: "foldl (\<lambda>acc v. acc + f v) a xs = a + sum_list (map f xs)"
  for a :: real
  by (induction xs arbitrary: a) simp_all

lemma foldl_max_Max: "foldl max v vs = Max (set (v # vs))" for v :: real
proof (induction vs arbitrary: v)
  case Nil then show ?case by simp
next
  case (Cons a vs)
  have "Max (set (v # a # vs)) = Max (set (max v a # vs))"
    by (cases "vs = []") (simp_all add: max.assoc)
  with Cons show ?case by simp
qed

lemma foldl_min_Min: "foldl min v vs = Min (set (v # vs))" for v :: real
proof (induction vs arbitrary: v)
  case Nil then show ?case by simp
next
  case (Cons a vs)
  have "Min (set (v # a # vs)) = Min (set (min v a # vs))"
    by (cases "vs = []") (simp_all add: min.assoc)
  with Cons show ?case by simp
qed

lemma spreadMax_Max: "vs \<noteq> [] \<Longrightarrow> spreadMax vs = Max (set vs)"
  by (cases vs) (simp_all add: foldl_max_Max del: set_simps)

lemma spreadMin_Min: "vs \<noteq> [] \<Longrightarrow> spreadMin vs = Min (set vs)"
  by (cases vs) (simp_all add: foldl_min_Min del: set_simps)

lemma spreadMax_map: "2 \<le> length hs \<Longrightarrow> spreadMax (map f hs) = Max (set (map f hs))"
  by (rule spreadMax_Max) auto

lemma spreadMin_map: "2 \<le> length hs \<Longrightarrow> spreadMin (map f hs) = Min (set (map f hs))"
  by (rule spreadMin_Min) auto

lemma headMeanY_sum: "headMeanY ps = sum_list (map lm_y ps) / real (length ps)"
  by (simp add: headMeanY_def foldl_add_sum)

lemma visiblePoints_usable:
  "visiblePoints (map (landmarkAt landmarks) is) = map (\<lambda>i. landmarks ! i) (filter (usable landmarks) is)"
  by (induction "is") (simp_all add: landmarkAt_def usable_def MIN_VISIBILITY_def)

lemma shoulderPair_usable:
  "shoulderPair (landmarkAt landmarks i) (landmarkAt landmarks j) =
     (if usable landmarks i \<and> usable landmarks j then Some (landmarks ! i, landmarks ! j) else None)"
  by (simp add: shoulderPair_def landmarkAt_def usable_def MIN_VISIBILITY_def)

lemma computeTierSignal_spec: "computeTierSignal landmarks = specTierSignal landmarks"
proof -
  have vp: "visiblePoints [landmarkAt landmarks 0, landmarkAt landmarks 7, landmarkAt landmarks 8]
            = map (\<lambda>i. landmarks ! i) (filter (usable landmarks) [0, 7, 8])"
    using visiblePoints_usable [of landmarks "[0, 7, 8]"] by simp
  define hs where "hs = filter (usable landmarks) [0, 7, 8]"
  show ?thesis
    unfolding computeTierSignal_def specTierSignal_def Let_def vp shoulderPair_usable
      headMeanY_sum hs_def [symmetric]
    by (auto simp: o_def spreadMax_map spreadMin_map max.commute mult.commute simp del: set_map)
qed

lemma length_poseFrame [simp]: "length (poseFrame a b c d e) = 13"
  by (simp add: poseFrame_def)

lemma landmarkAt_poseFrame [simp]:
  "landmarkAt (poseFrame a b c d e) 0 = Some a"
  "landmarkAt (poseFrame a b c d e) 7 = Some b"
  "landmarkAt (poseFrame a b c d e) 8 = Some c"
  "landmarkAt (poseFrame a b c d e) 11 = Some d"
  "landmarkAt (poseFrame a b c d e) 12 = Some e"
  by (simp_all add: landmarkAt_def poseFrame_def)

lemma computeTierSignal_tier1Frame [simp]:
  "computeTierSignal (tier1Frame s) = Some \<lparr>tier = Tier1, signal = s, thresholdMultiplier = 1\<rparr>"
  by (simp add: computeTierSignal_def tier1Frame_def seenPoint_def hiddenPoint_def
      shoulderPair_def headMeanY_def MIN_VISIBILITY_def Let_def algebra_simps)

lemma computeTierSignal_emptyFrame [simp]: "computeTierSignal emptyFrame = None"
  by (simp add: computeTierSignal_def emptyFrame_def hiddenPoint_def shoulderPair_def
      MIN_VISIBILITY_def Let_def)

lemma calibrationStep_keeps [simp]:
  "trackingTier (calibrationStep s r) = trackingTier r"
  "lastSignal (calibrationStep s r) = lastSignal r"
  "missingFrames (calibrationStep s r) = missingFrames r"
  "lastDetectAt (calibrationStep s r) = lastDetectAt r"
  "stableGesture (calibrationStep s r) = stableGesture r"
  "pendingGesture (calibrationStep s r) = pendingGesture r"
  "pendingSince (calibrationStep s r) = pendingSince r"
  by (simp_all add: calibrationStep_def Let_def)

lemma adaptBaseline_keeps [simp]:
  "trackingTier (adaptBaseline s r) = trackingTier r"
  "lastSignal (adaptBaseline s r) = lastSignal r"
  "missingFrames (adaptBaseline s r) = missingFrames r"
  "lastDetectAt (adaptBaseline s r) = lastDetectAt r"
  "stableGesture (adaptBaseline s r) = stableGesture r"
  "pendingGesture (adaptBaseline s r) = pendingGesture r"
  "pendingSince (adaptBaseline s r) = pendingSince r"
  "calibrationBuffer (adaptBaseline s r) = calibrationBuffer r"
  "recalibrating (adaptBaseline s r) = recalibrating r"
  "driftFrames (adaptBaseline s r) = driftFrames r"
  by (simp_all add: adaptBaseline_def Let_def)

lemma debounce_keeps [simp]:
  "trackingTier (snd (debounce c t r)) = trackingTier r"
  "lastSignal (snd (debounce c t r)) = lastSignal r"
  "missingFrames (snd (debounce c t r)) = missingFrames r"
  "lastDetectAt (snd (debounce c t r)) = lastDetectAt r"
  "baseline (snd (debounce c t r)) = baseline r"
  "calibrationBuffer (snd (debounce c t r)) = calibrationBuffer r"
  "recalibrating (snd (debounce c t r)) = recalibrating r"
  "driftFrames (snd (debounce c t r)) = driftFrames r"
  "idleFrames (snd (debounce c t r)) = idleFrames r"
  by (simp_all add: debounce_def Let_def)

lemma trackStep_keeps [simp]:
  "trackingTier (snd (trackStep tr v t r)) = trackingTier r"
  "lastSignal (snd (trackStep tr v t r)) = lastSignal r"
  "missingFrames (snd (trackStep tr v t r)) = missingFrames r"
  "lastDetectAt (snd (trackStep tr v t r)) = lastDetectAt r"
  by (simp_all add: trackStep_def Let_def)

lemma estimateGesture_Some:
  "computeTierSignal landmarks = Some tr \<Longrightarrow>
   trackingTier (snd (estimateGesture landmarks runtime now)) = tier tr \<and>
   lastSignal (snd (estimateGesture landmarks runtime now)) = Some (signal tr) \<and>
   missingFrames (snd (estimateGesture landmarks runtime now)) = 0"
  by (simp add: estimateGesture_def Let_def)


lemma checkPoseMatch_miss:
  "holdMs challenge \<noteq> 0 \<Longrightarrow> currentGesture \<noteq> targetGesture challenge \<or> holdStartTime = None \<Longrightarrow>
   checkPoseMatch challenge currentGesture holdStartTime now = \<lparr>matched = False, holdProgress = 0\<rparr>"
  by (auto simp: checkPoseMatch_def)

lemma checkPoseMatch_held:
  "holdMs challenge > 0 \<Longrightarrow>
   checkPoseMatch challenge (targetGesture challenge) (Some t) now =
     \<lparr>matched = (now - t \<ge> holdMs challenge),
      holdProgress = min 1 ((now - t) / holdMs challenge)\<rparr>"
  by (simp add: checkPoseMatch_def Let_def min_def pos_le_divide_eq)

lemma poseMatchEffect_interrupt:
  assumes "holdMs ch > 0" "\<not> now - cs > timeoutMs ch"
    "\<not> (g = targetGesture ch \<and> st = StatusTracking)"
  shows "poseMatchEffect ch cs g st now refs =
           (NoAdvance, \<lparr>holdStartRef = None, holdProgressState = 0\<rparr>)"
  using assms by (auto simp: poseMatchEffect_def checkPoseMatch_def Let_def)

lemma poseMatchEffect_start:
  fixes refs :: HoldRefs
  assumes "holdMs ch > 0" "\<not> now - cs > timeoutMs ch" "holdStartRef refs = None"
  shows "poseMatchEffect ch cs (targetGesture ch) StatusTracking now refs =
           (NoAdvance, \<lparr>holdStartRef = Some now, holdProgressState = 0\<rparr>)"
  using assms by (simp add: poseMatchEffect_def checkPoseMatch_held Let_def)

lemma poseMatchEffect_continue:
  fixes refs :: HoldRefs
  assumes "holdMs ch > 0" "\<not> now - cs > timeoutMs ch" "holdStartRef refs = Some t"
  shows "poseMatchEffect ch cs (targetGesture ch) StatusTracking now refs =
           (if now - t \<ge> holdMs ch then AdvanceMatched else NoAdvance,
            \<lparr>holdStartRef = Some t, holdProgressState = min 1 ((now - t) / holdMs ch)\<rparr>)"
  using assms by (simp add: poseMatchEffect_def checkPoseMatch_held Let_def)


lemma CHALLENGES_0: "CHALLENGES ! 0 = \<lparr>targetGesture = IDLE, holdMs = 2000, timeoutMs = 6000\<rparr>"
  by (simp add: CHALLENGES_def)


lemma length_tier1Frame [simp]: "length (tier1Frame s) = 13"
  by (simp add: tier1Frame_def)

lemma length_emptyFrame [simp]: "length emptyFrame = 13"
  by (simp add: emptyFrame_def)

lemma estimateGesture_None:
  "computeTierSignal landmarks = None \<Longrightarrow>
   estimateGesture landmarks runtime now =
     (IDLE, runtime\<lparr>missingFrames := missingFrames runtime + 1, lastSignal := None\<rparr>)"
  by (simp add: estimateGesture_def)

lemma publish_noPerson [simp]:
  "status (publish (noPersonUpdate r) st) = StatusNoPerson"
  "gesture (publish (noPersonUpdate r) st) = IDLE"
  by (simp_all add: publish_def noPersonUpdate_def)

lemma processFrame_absent:
  "result = None \<or> length (the result) < 13 \<Longrightarrow>
   processFrame (DetectionResult result) now (rt, st) =
     (rt\<lparr>lastDetectAt := now, missingFrames := missingFrames rt + 1\<rparr>,
      if missingFrames rt + 1 > MAX_MISSING_FRAMES
      then publish (noPersonUpdate (rt\<lparr>lastDetectAt := now, missingFrames := missingFrames rt + 1\<rparr>)) st
      else st)"
  by (auto simp: processFrame_def Let_def)

lemma processFrame_present:
  "13 \<le> length landmarks \<Longrightarrow>
   processFrame (DetectionResult (Some landmarks)) now (rt, st) =
     (let (g, runtime) = estimateGesture landmarks (rt\<lparr>lastDetectAt := now\<rparr>) now
      in if missingFrames runtime > MAX_MISSING_FRAMES then
           (runtime, publish (noPersonUpdate runtime) st)
         else
           (runtime,
            publish
              \<lparr>p_gesture = Some g,
               p_status = Some (if baseline runtime \<noteq> None \<and> \<not> recalibrating runtime
                                then StatusTracking else StatusCalibrating),
               p_calibrationProgress =
                 Some (if baseline runtime \<noteq> None \<and> \<not> recalibrating runtime then 1
                       else real (length (calibrationBuffer runtime)) /
                            real (if recalibrating runtime then RECALIBRATION_FRAMES
                                  else CALIBRATION_FRAMES)),
               p_errorMessage = None,
               p_trackingTier = Some (trackingTier runtime)\<rparr> st))"
  by (simp add: processFrame_def Let_def split_beta)

lemma processFrame_failed:
  assumes "failedDetection d"
  shows "missingFrames (fst (processFrame d now (rt, st))) = missingFrames rt + 1"
    and "missingFrames rt + 1 > MAX_MISSING_FRAMES \<Longrightarrow>
           status (snd (processFrame d now (rt, st))) = StatusNoPerson \<and>
           gesture (snd (processFrame d now (rt, st))) = IDLE"
    and "missingFrames rt + 1 \<le> MAX_MISSING_FRAMES \<Longrightarrow> status st \<noteq> StatusNoPerson \<Longrightarrow>
           status (snd (processFrame d now (rt, st))) \<noteq> StatusNoPerson"
proof -
  consider (absent) result where "d = DetectionResult result" "result = None \<or> length (the result) < 13"
    | (blind) landmarks where "d = DetectionResult (Some landmarks)" "13 \<le> length landmarks"
        "computeTierSignal landmarks = None"
  proof (cases d rule: failedDetection.cases)
    case (1 message)
    with assms show ?thesis by simp
  next
    case 2
    then show ?thesis by (intro absent [of None]) simp_all
  next
    case (3 landmarks)
    show ?thesis
    proof (cases "length landmarks < 13")
      case True
      with 3 show ?thesis by (intro absent [of "Some landmarks"]) simp_all
    next
      case False
      with 3 assms show ?thesis by (intro blind [of landmarks]) simp_all
    qed
  qed
  then have "missingFrames (fst (processFrame d now (rt, st))) = missingFrames rt + 1 \<and>
    (missingFrames rt + 1 > MAX_MISSING_FRAMES \<longrightarrow>
           status (snd (processFrame d now (rt, st))) = StatusNoPerson \<and>
           gesture (snd (processFrame d now (rt, st))) = IDLE) \<and>
    (missingFrames rt + 1 \<le> MAX_MISSING_FRAMES \<longrightarrow> status st \<noteq> StatusNoPerson \<longrightarrow>
           status (snd (processFrame d now (rt, st))) \<noteq> StatusNoPerson)"
  proof cases
    case absent
    then show ?thesis by (simp add: processFrame_absent)
  next
    case blind
    then show ?thesis
      by (simp add: processFrame_present estimateGesture_None publish_def noPersonUpdate_def)
  qed
  then show "missingFrames (fst (processFrame d now (rt, st))) = missingFrames rt + 1"
    and "missingFrames rt + 1 > MAX_MISSING_FRAMES \<Longrightarrow>
           status (snd (processFrame d now (rt, st))) = StatusNoPerson \<and>
           gesture (snd (processFrame d now (rt, st))) = IDLE"
    and "missingFrames rt + 1 \<le> MAX_MISSING_FRAMES \<Longrightarrow> status st \<noteq> StatusNoPerson \<Longrightarrow>
           status (snd (processFrame d now (rt, st))) \<noteq> StatusNoPerson"
    by blast+
qed

lemma processFrames_failed:
  assumes "\<forall>f \<in> set frames. failedDetection (fst f)"
  shows "missingFrames (fst (processFrames frames (rt, st))) = missingFrames rt + length frames \<and>
         (missingFrames rt + length frames \<le> MAX_MISSING_FRAMES \<longrightarrow> status st \<noteq> StatusNoPerson \<longrightarrow>
            status (snd (processFrames frames (rt, st))) \<noteq> StatusNoPerson) \<and>
         (frames \<noteq> [] \<longrightarrow> missingFrames rt + length frames > MAX_MISSING_FRAMES \<longrightarrow>
            status (snd (processFrames frames (rt, st))) = StatusNoPerson \<and>
            gesture (snd (processFrames frames (rt, st))) = IDLE)"
  using assms
proof (induction frames arbitrary: rt st)
  case Nil
  then show ?case by simp
next
  case (Cons f frames)
  obtain d now where f: "f = (d, now)" by (cases f)
  obtain rt1 st1 where step: "processFrame d now (rt, st) = (rt1, st1)"
    by (cases "processFrame d now (rt, st)")
  from Cons.prems f have failed: "failedDetection d" by simp
  have count: "missingFrames rt1 = missingFrames rt + 1"
    using processFrame_failed(1) [OF failed, of now rt st] step by simp
  have over: "missingFrames rt + 1 > MAX_MISSING_FRAMES \<Longrightarrow>
      status st1 = StatusNoPerson \<and> gesture st1 = IDLE"
    using processFrame_failed(2) [OF failed, of rt now st] step by simp
  have under: "missingFrames rt + 1 \<le> MAX_MISSING_FRAMES \<Longrightarrow> status st \<noteq> StatusNoPerson \<Longrightarrow>
      status st1 \<noteq> StatusNoPerson"
    using processFrame_failed(3) [OF failed, of rt st now] step by simp
  from Cons.prems have rest: "\<forall>f \<in> set frames. failedDetection (fst f)" by simp
  note IH = Cons.IH [OF rest, of rt1 st1]
  have run: "processFrames (f # frames) (rt, st) = processFrames frames (rt1, st1)"
    by (simp add: f step)
  show ?case
  proof (cases "frames = []")
    case True
    with count over under show ?thesis unfolding run by simp
  next
    case False
    with IH count under show ?thesis unfolding run by auto
  qed
qed

lemma foldl_add_sum_list: "foldl (\<lambda>acc v. acc + v) a xs = a + sum_list xs" for a :: real
  by (induction xs arbitrary: a) simp_all

lemma calibrationStep_eq:
  "calibrationStep s r =
     (if length (calibrationBuffer r) + 1 \<ge> (if recalibrating r then 10 else 15) then
        r\<lparr>baseline := Some (sum_list (calibrationBuffer r @ [s]) / real (length (calibrationBuffer r) + 1)),
          calibrationBuffer := [], recalibrating := False, driftFrames := 0, idleFrames := 0\<rparr>
      else r\<lparr>calibrationBuffer := calibrationBuffer r @ [s]\<rparr>)"
  by (simp add: calibrationStep_def Let_def foldl_add_sum_list RECALIBRATION_FRAMES_def
      CALIBRATION_FRAMES_def)

lemma calibrationStep_baseline: "baseline r \<noteq> None \<Longrightarrow> baseline (calibrationStep s r) \<noteq> None"
  by (simp add: calibrationStep_eq)

lemma adaptBaseline_baseline: "baseline r \<noteq> None \<Longrightarrow> baseline (adaptBaseline s r) \<noteq> None"
  by (simp add: adaptBaseline_def Let_def)

lemma trackStep_baseline:
  "baseline (snd (trackStep tr v t r)) = baseline (adaptBaseline (signal tr) r)"
  by (simp add: trackStep_def Let_def)

lemma estimateGesture_baseline:
  "baseline rt \<noteq> None \<Longrightarrow> baseline (snd (estimateGesture landmarks rt now)) \<noteq> None"
  by (cases "computeTierSignal landmarks")
     (simp_all add: estimateGesture_def Let_def calibrationStep_baseline trackStep_baseline
        adaptBaseline_baseline del: not_None_eq)

lemma estimateGestures_baseline:
  "baseline rt \<noteq> None \<Longrightarrow> baseline (estimateGestures frames rt) \<noteq> None"
proof (induction frames arbitrary: rt)
  case Nil
  then show ?case by simp
next
  case (Cons f frames)
  obtain landmarks now where f: "f = (landmarks, now)" by (cases f)
  from Cons.prems have "baseline (snd (estimateGesture landmarks rt now)) \<noteq> None"
    by (rule estimateGesture_baseline)
  then show ?case unfolding f by (simp add: Cons.IH)
qed

lemma processFrame_baseline:
  assumes "baseline rt \<noteq> None"
  shows "baseline (fst (processFrame d now (rt, st))) \<noteq> None"
proof (cases d)
  case (DetectionThrows message)
  with assms show ?thesis by (simp add: processFrame_def Let_def)
next
  case (DetectionResult result)
  show ?thesis
  proof (cases "result = None \<or> length (the result) < 13")
    case True
    with assms DetectionResult show ?thesis by (simp add: processFrame_absent)
  next
    case False
    then obtain landmarks where lm: "result = Some landmarks" "13 \<le> length landmarks" by auto
    from assms have "baseline (rt\<lparr>lastDetectAt := now\<rparr>) \<noteq> None" by simp
    from estimateGesture_baseline [OF this, of landmarks now] DetectionResult lm
    show ?thesis by (simp add: processFrame_present split_beta)
  qed
qed

lemma processFrames_baseline:
  "baseline rt \<noteq> None \<Longrightarrow> baseline (fst (processFrames frames (rt, st))) \<noteq> None"
proof (induction frames arbitrary: rt st)
  case Nil
  then show ?case by simp
next
  case (Cons f frames)
  obtain d now where f: "f = (d, now)" by (cases f)
  obtain rt1 st1 where step: "processFrame d now (rt, st) = (rt1, st1)"
    by (cases "processFrame d now (rt, st)")
  from processFrame_baseline [OF Cons.prems, of d now st] step have "baseline rt1 \<noteq> None" by simp
  then show ?case unfolding f by (simp add: step Cons.IH)
qed

lemma recalibrating_step:
  assumes "recalibrating rt"
  shows "estimateGesture landmarks rt now =
     (IDLE,
      case computeTierSignal landmarks of
        None \<Rightarrow> rt\<lparr>missingFrames := missingFrames rt + 1, lastSignal := None\<rparr>
      | Some tr \<Rightarrow>
          calibrationStep (signal tr)
            (rt\<lparr>missingFrames := 0, trackingTier := tier tr, lastSignal := Some (signal tr)\<rparr>))"
  using assms by (cases "computeTierSignal landmarks") (simp_all add: estimateGesture_def Let_def)

lemma entering_recalibration:
  assumes "\<not> recalibrating rt" "recalibrating (snd (estimateGesture landmarks rt now))"
  shows "\<exists>tr. computeTierSignal landmarks = Some tr \<and> baseline rt \<noteq> None \<and>
           stableGesture rt = IDLE \<and>
           fst (estimateGesture landmarks rt now) = IDLE \<and>
           calibrationBuffer (snd (estimateGesture landmarks rt now)) = [signal tr] \<and>
           baseline (snd (estimateGesture landmarks rt now)) =
             Some (the (baseline rt) * (if idleFrames rt + 1 > 60 then 0.75 else 0.85) +
                   signal tr * (1 - (if idleFrames rt + 1 > 60 then 0.75 else 0.85)))"
proof (cases "computeTierSignal landmarks")
  case None
  with assms show ?thesis by (simp add: estimateGesture_None)
next
  case (Some tr)
  show ?thesis
  proof (cases "baseline rt = None")
    case True
    with assms Some show ?thesis
      by (simp add: estimateGesture_def Let_def calibrationStep_eq split: if_splits)
  next
    case False
    with assms Some show ?thesis
      by (auto simp: estimateGesture_def Let_def trackStep_def adaptBaseline_def constants_defs
          split: if_splits)
  qed
qed

lemmas eval_defs =
  estimateGesture_def calibrationStep_def trackStep_def adaptBaseline_def debounce_def
  gestureCandidate_def Let_def constants_defs createRuntime_def trackingRuntime_def

text \<open>The fixture \<open>trackingRuntime\<close> is what fifteen frames of constant signal, 34 ms
  apart, leave behind when the hook starts.\<close>

lemma trackingRuntime_reached:
  "processFrames (map (\<lambda>k. (DetectionResult (Some (tier1Frame 0.5)), 34 * real k)) [1..<16])
     (createRuntime, loadingState) = (trackingRuntime 0.5 510, trackingState)"
  by (simp add: upt_rec processFrame_present eval_defs loadingState_def publish_def INITIAL_STATE_def trackingState_def)

lemma detected_sel [simp]:
  "fst (detected f) = DetectionResult (Some (fst f))" "snd (detected f) = snd f"
  by (simp_all add: detected_def)

lemma usableSignal_Some:
  "usableSignal landmarks = Some x \<longleftrightarrow>
     13 \<le> length landmarks \<and> (\<exists>tr. computeTierSignal landmarks = Some tr \<and> signal tr = x)"
  by (auto simp: usableSignal_def)

lemma usableSignal_tier1Frame [simp]: "usableSignal (tier1Frame s) = Some s"
  by (simp add: usableSignal_def)

lemma processFrames_Cons:
  "processFrames (f # frames) rs = processFrames frames (processFrame (fst f) (snd f) rs)"
  by (cases f) simp

lemma processFrames_append:
  "processFrames (xs @ ys) rs = processFrames ys (processFrames xs rs)"
  by (induction xs arbitrary: rs) (simp_all add: processFrames_Cons)

lemma processFrame_usable:
  assumes "13 \<le> length landmarks" "computeTierSignal landmarks = Some tr"
  shows "processFrame (DetectionResult (Some landmarks)) now (rt, st) =
     (let r = snd (estimateGesture landmarks (rt\<lparr>lastDetectAt := now\<rparr>) now);
          calibrated = (baseline r \<noteq> None \<and> \<not> recalibrating r)
      in (r, \<lparr>gesture = fst (estimateGesture landmarks (rt\<lparr>lastDetectAt := now\<rparr>) now),
              status = (if calibrated then StatusTracking else StatusCalibrating),
              calibrationProgress =
                (if calibrated then 1
                 else real (length (calibrationBuffer r)) /
                      (if recalibrating r then 10 else 15)),
              errorMessage = errorMessage st,
              publishedTier = tier tr\<rparr>))"
  using estimateGesture_Some [OF assms(2), of "rt\<lparr>lastDetectAt := now\<rparr>" now]
  by (simp add: processFrame_present [OF assms(1)] split_beta Let_def publish_def
      MAX_MISSING_FRAMES_def RECALIBRATION_FRAMES_def CALIBRATION_FRAMES_def)

lemma estimateGesture_calibrating:
  assumes "baseline rt = None \<or> recalibrating rt" "computeTierSignal landmarks = Some tr"
  shows "estimateGesture landmarks rt now =
     (IDLE, calibrationStep (signal tr)
              (rt\<lparr>missingFrames := 0, trackingTier := tier tr, lastSignal := Some (signal tr)\<rparr>))"
  using assms by (auto simp: estimateGesture_def Let_def)

lemma estimateGesture_tracking:
  assumes "baseline rt \<noteq> None" "\<not> recalibrating rt" "computeTierSignal landmarks = Some tr"
  shows "estimateGesture landmarks rt now =
     trackStep tr (case lastSignal rt of None \<Rightarrow> 0 | Some l \<Rightarrow> l - signal tr) now
       (rt\<lparr>missingFrames := 0, trackingTier := tier tr, lastSignal := Some (signal tr)\<rparr>)"
  using assms by (auto simp: estimateGesture_def Let_def)

text \<open>A frame taken in calibration mode that does not fill the buffer.\<close>

lemma calibrating_frame:
  assumes mode: "baseline rt = None \<or> recalibrating rt"
    and sig: "usableSignal landmarks = Some x"
    and short: "length (calibrationBuffer rt) + 1 < (if recalibrating rt then 10 else 15)"
    and step: "processFrame (DetectionResult (Some landmarks)) now (rt, st) = (rt', st')"
  shows "calibrationBuffer rt' = calibrationBuffer rt @ [x] \<and> baseline rt' = baseline rt \<and>
         recalibrating rt' = recalibrating rt \<and> gesture st' = IDLE \<and>
         status st' = StatusCalibrating \<and>
         calibrationProgress st' =
           real (length (calibrationBuffer rt) + 1) / (if recalibrating rt then 10 else 15)"
proof -
  from sig obtain tr where tr: "13 \<le> length landmarks" "computeTierSignal landmarks = Some tr"
    "signal tr = x" by (auto simp: usableSignal_Some)
  have mode': "baseline (rt\<lparr>lastDetectAt := now\<rparr>) = None \<or> recalibrating (rt\<lparr>lastDetectAt := now\<rparr>)"
    using mode by simp
  show ?thesis
    using step mode short unfolding processFrame_usable [OF tr(1,2)]
      estimateGesture_calibrating [OF mode' tr(2)] tr(3)
    by (auto simp: calibrationStep_eq Let_def)
qed

text \<open>The frame taken in calibration mode that fills the buffer.\<close>

lemma calibration_final_frame:
  assumes mode: "baseline rt = None \<or> recalibrating rt"
    and sig: "usableSignal landmarks = Some x"
    and full: "length (calibrationBuffer rt) + 1 \<ge> (if recalibrating rt then 10 else 15)"
    and step: "processFrame (DetectionResult (Some landmarks)) now (rt, st) = (rt', st')"
  shows "baseline rt' = Some (sum_list (calibrationBuffer rt @ [x]) /
                               real (length (calibrationBuffer rt) + 1)) \<and>
         calibrationBuffer rt' = [] \<and> \<not> recalibrating rt' \<and> gesture st' = IDLE \<and>
         status st' = StatusTracking \<and> calibrationProgress st' = 1"
proof -
  from sig obtain tr where tr: "13 \<le> length landmarks" "computeTierSignal landmarks = Some tr"
    "signal tr = x" by (auto simp: usableSignal_Some)
  have mode': "baseline (rt\<lparr>lastDetectAt := now\<rparr>) = None \<or> recalibrating (rt\<lparr>lastDetectAt := now\<rparr>)"
    using mode by simp
  show ?thesis
    using step mode full unfolding processFrame_usable [OF tr(1,2)]
      estimateGesture_calibrating [OF mode' tr(2)] tr(3)
    by (auto simp: calibrationStep_eq Let_def)
qed

text \<open>A run of frames in calibration mode that does not fill the buffer.\<close>

lemma calibrating_frames:
  assumes "baseline rt = None \<or> recalibrating rt"
    and "map (\<lambda>f. usableSignal (fst f)) frames = map Some ss"
    and "length (calibrationBuffer rt) + length ss < (if recalibrating rt then 10 else 15)"
    and "processFrames (map detected frames) (rt, st) = (rt', st')"
  shows "calibrationBuffer rt' = calibrationBuffer rt @ ss \<and> baseline rt' = baseline rt \<and>
         recalibrating rt' = recalibrating rt \<and>
         (frames \<noteq> [] \<longrightarrow> gesture st' = IDLE \<and> status st' = StatusCalibrating \<and>
            calibrationProgress st' =
              real (length (calibrationBuffer rt @ ss)) / (if recalibrating rt then 10 else 15))"
  using assms
proof (induction frames arbitrary: rt st ss)
  case Nil
  then show ?case by simp
next
  case (Cons f frames)
  from Cons.prems(2) obtain x xs where ss: "ss = x # xs" "usableSignal (fst f) = Some x"
    "map (\<lambda>f. usableSignal (fst f)) frames = map Some xs" by (cases ss) auto
  obtain rt1 st1 where step: "processFrame (DetectionResult (Some (fst f))) (snd f) (rt, st) = (rt1, st1)"
    by (cases "processFrame (DetectionResult (Some (fst f))) (snd f) (rt, st)")
  from Cons.prems(3) ss have short: "length (calibrationBuffer rt) + 1 < (if recalibrating rt then 10 else 15)"
    by (auto split: if_splits)
  note one = calibrating_frame [OF Cons.prems(1) ss(2) short step]
  have mode1: "baseline rt1 = None \<or> recalibrating rt1" using one Cons.prems(1) by auto
  have short1: "length (calibrationBuffer rt1) + length xs < (if recalibrating rt1 then 10 else 15)"
    using one Cons.prems(3) ss by simp
  have run1: "processFrames (map detected frames) (rt1, st1) = (rt', st')"
    using Cons.prems(4) step by (simp add: processFrames_Cons)
  note IH = Cons.IH [OF mode1 ss(3) short1 run1]
  show ?case
  proof (cases "frames = []")
    case True
    with run1 ss(3) have "rt' = rt1" "st' = st1" "xs = []" by simp_all
    with one ss show ?thesis by simp
  next
    case False
    with IH one ss show ?thesis by simp
  qed
qed

lemma replicate_15: "replicate 15 x = [x, x, x, x, x, x, x, x, x, x, x, x, x, x, x]"
  by (simp add: numeral_eq_Suc)

lemma calibration_frames_reached:
  "processFrames (map detected (map (\<lambda>k. (tier1Frame 0.5, 34 * real k)) [1..<16]))
     (createRuntime, loadingState) = (trackingRuntime 0.5 510, trackingState)"
  using trackingRuntime_reached by (simp add: detected_def o_def)

lemma adaptBaseline_frame_fields [simp]:
  "baseline (adaptBaseline x (rt\<lparr>lastDetectAt := t\<rparr>)) = baseline (adaptBaseline x rt)"
  "baseline (adaptBaseline x (rt\<lparr>missingFrames := m, trackingTier := tt, lastSignal := l\<rparr>)) =
     baseline (adaptBaseline x rt)"
  "idleFrames (adaptBaseline x (rt\<lparr>lastDetectAt := t\<rparr>)) = idleFrames (adaptBaseline x rt)"
  "idleFrames (adaptBaseline x (rt\<lparr>missingFrames := m, trackingTier := tt, lastSignal := l\<rparr>)) =
     idleFrames (adaptBaseline x rt)"
  by (simp_all add: adaptBaseline_def Let_def)

lemma driftRun_append:
  "driftRun (xs @ ys) rs \<longleftrightarrow> driftRun xs rs \<and> driftRun ys (processFrames (map detected xs) rs)"
  by (induction xs arbitrary: rs) (simp_all add: processFrames_Cons)

text \<open>What a drift frame does: it counts, and the fifteenth in a row enters recalibration.\<close>

lemma drift_frame:
  assumes drift: "driftFrame landmarks rt"
    and sig: "usableSignal landmarks = Some x"
    and step: "processFrame (DetectionResult (Some landmarks)) now (rt, st) = (rt', st')"
  shows "(driftFrames rt + 1 < 15 \<longrightarrow>
           driftFrames rt' = driftFrames rt + 1 \<and> \<not> recalibrating rt' \<and> baseline rt' \<noteq> None) \<and>
         (driftFrames rt + 1 \<ge> 15 \<longrightarrow>
           recalibrating rt' \<and> calibrationBuffer rt' = [x] \<and> baseline rt' \<noteq> None \<and>
           gesture st' = IDLE \<and> status st' = StatusCalibrating)"
proof -
  from sig obtain tr where tr: "13 \<le> length landmarks" "computeTierSignal landmarks = Some tr"
    "signal tr = x" by (auto simp: usableSignal_Some)
  from drift sig have d: "baseline rt \<noteq> None" "\<not> recalibrating rt" "stableGesture rt = IDLE"
    "\<bar>x - the (baseline (adaptBaseline x rt))\<bar> > 0.35"
    by (simp_all add: driftFrame_def)
  have t: "baseline (rt\<lparr>lastDetectAt := now\<rparr>) \<noteq> None" "\<not> recalibrating (rt\<lparr>lastDetectAt := now\<rparr>)"
    using d by simp_all
  have ab: "baseline (adaptBaseline x rt) \<noteq> None"
    using d(1) by (rule adaptBaseline_baseline)
  show ?thesis
    using step d ab unfolding processFrame_usable [OF tr(1,2)]
      estimateGesture_tracking [OF t tr(2)] tr(3)
    by (auto simp: trackStep_def Let_def tr(3) RECALIBRATION_DRIFT_THRESHOLD_def
        CALIBRATION_FRAMES_def simp del: not_None_eq)
qed

lemma drift_frames:
  assumes "driftRun frames (rt, st)"
    and "driftFrames rt + length frames < 15"
    and "processFrames (map detected frames) (rt, st) = (rt', st')"
  shows "driftFrames rt' = driftFrames rt + length frames"
  using assms
proof (induction frames arbitrary: rt st)
  case Nil
  then show ?case by simp
next
  case (Cons f frames)
  obtain rt1 st1 where step: "processFrame (DetectionResult (Some (fst f))) (snd f) (rt, st) = (rt1, st1)"
    by (cases "processFrame (DetectionResult (Some (fst f))) (snd f) (rt, st)")
  from Cons.prems(1) have df: "driftFrame (fst f) rt" and rest: "driftRun frames (rt1, st1)"
    by (simp_all add: step)
  from df obtain x where x: "usableSignal (fst f) = Some x"
    by (auto simp: driftFrame_def split: option.splits)
  from drift_frame [OF df x step] Cons.prems(2) have c1: "driftFrames rt1 = driftFrames rt + 1"
    by simp
  have run1: "processFrames (map detected frames) (rt1, st1) = (rt', st')"
    using Cons.prems(3) step by (simp add: processFrames_Cons)
  from Cons.IH [OF rest _ run1] c1 Cons.prems(2) show ?case by simp
qed

lemma swing_run:
  "driftRun swingFrames (trackingRuntime 0.5 510, trackingState)"
  by (simp add: swingFrames_def upt_rec driftFrame_def processFrame_usable eval_defs)


lemma swing_last: "usableSignal (fst (last swingFrames)) = Some 1"
  by (simp add: swingFrames_def upt_rec)

lemma settle_signals:
  "map (\<lambda>f. usableSignal (fst f)) (settleFrames 9) = map Some [0.5, 0.5, 0.5, 0.5, 0.5, 0.5, 0.5, 0.5, 0.5]"
  by (simp add: settleFrames_def upt_rec)

lemmas run_defs = holdFrames_def upt_rec processFrames_Cons processFrame_usable eval_defs

lemma adaptBaseline_idle:
  assumes "stableGesture r = IDLE" "baseline r = Some b"
  shows "adaptBaseline x r =
     r\<lparr>idleFrames := idleFrames r + 1,
       baseline := Some (b * (if idleFrames r + 1 > 60 then 0.75 else 0.85) +
                         x * (1 - (if idleFrames r + 1 > 60 then 0.75 else 0.85)))\<rparr>"
  using assms by (simp add: adaptBaseline_def Let_def constants_defs)

lemma adaptBaseline_active:
  assumes "stableGesture r \<noteq> IDLE"
  shows "adaptBaseline x r = r\<lparr>idleFrames := 0\<rparr>"
  using assms by (simp add: adaptBaseline_def)

text \<open>A tracking frame that is not counted as drift ends in the debounce.\<close>

lemma trackStep_no_drift:
  assumes "\<not> (stableGesture r = IDLE \<and>
              \<bar>signal tr - the (baseline (adaptBaseline (signal tr) r))\<bar> > 0.35)"
  shows "trackStep tr v now r =
     debounce (gestureCandidate (the (baseline (adaptBaseline (signal tr) r))) (signal tr)
                 (thresholdMultiplier tr) v) now
       ((adaptBaseline (signal tr) r)\<lparr>driftFrames := 0\<rparr>)"
  using assms unfolding trackStep_def Let_def RECALIBRATION_DRIFT_THRESHOLD_def by auto

lemma debounce_same:
  "c = stableGesture r \<Longrightarrow> debounce c now r = (stableGesture r, r\<lparr>pendingGesture := None\<rparr>)"
  by (simp add: debounce_def)

lemma debounce_new:
  "c \<noteq> stableGesture r \<Longrightarrow> pendingGesture r \<noteq> Some c \<Longrightarrow>
   debounce c now r = (stableGesture r, r\<lparr>pendingGesture := Some c, pendingSince := now\<rparr>)"
  by (simp add: debounce_def)

lemma debounce_pending:
  "c \<noteq> stableGesture r \<Longrightarrow> pendingGesture r = Some c \<Longrightarrow>
   debounce c now r =
     (if now - pendingSince r \<ge> 90 then (c, r\<lparr>stableGesture := c, pendingGesture := None\<rparr>)
      else (stableGesture r, r))"
  by (simp add: debounce_def Let_def DEBOUNCE_MS_def)

lemma small_step_candidate:
  assumes "0.38 \<le> b'" "b' \<le> 0.482" "s = 0.38"
  shows "gestureCandidate b' s 1 v \<noteq> DUCK"
    and "b' \<le> 0.4667 \<Longrightarrow> gestureCandidate b' s 1 0 = IDLE"
  using assms by (simp_all add: gestureCandidate_def Let_def constants_defs)

lemma small_step_frame:
  assumes fr: "13 \<le> length landmarks"
      "computeTierSignal landmarks = Some \<lparr>tier = Tier1, signal = 0.38, thresholdMultiplier = 1\<rparr>"
    and rt: "baseline rt = Some b" "0.38 \<le> b" "b \<le> 0.5" "\<not> recalibrating rt"
      "stableGesture rt = IDLE"
    and first: "b \<le> 0.482 \<and> lastSignal rt = Some 0.38 \<or> pendingGesture rt \<noteq> Some JUMP"
    and step: "processFrame (DetectionResult (Some landmarks)) now (rt, st) = (rt', st')"
  shows "gesture st' = IDLE \<and> stableGesture rt' = IDLE \<and> \<not> recalibrating rt' \<and>
         (\<exists>b'. baseline rt' = Some b' \<and> 0.38 \<le> b' \<and> b' \<le> 0.482) \<and>
         lastSignal rt' = Some 0.38"
proof -
  define s :: real where "s = 0.38"
  define tr where "tr = \<lparr>tier = Tier1, signal = s, thresholdMultiplier = 1\<rparr>"
  define r0 where "r0 = rt\<lparr>lastDetectAt := now, missingFrames := 0, trackingTier := Tier1,
                          lastSignal := Some s\<rparr>"
  define a :: real where "a = (if idleFrames rt + 1 > 60 then 0.75 else 0.85)"
  define b' where "b' = b * a + s * (1 - a)"
  define v where "v = (case lastSignal rt of None \<Rightarrow> 0 | Some l \<Rightarrow> l - s)"
  define r1 where "r1 = r0\<lparr>idleFrames := idleFrames rt + 1, baseline := Some b', driftFrames := 0\<rparr>"
  define c where "c = gestureCandidate b' s 1 v"
  have tier: "computeTierSignal landmarks = Some tr" using fr(2) by (simp add: tr_def s_def)
  have [simp]: "signal tr = s" "tier tr = Tier1" "thresholdMultiplier tr = 1"
    by (simp_all add: tr_def)
  have lo: "0.38 \<le> b'" using rt(2) unfolding b'_def a_def s_def by (simp split: if_splits)
  have hi: "b' \<le> 0.482" using rt(2,3) unfolding b'_def a_def s_def by (simp split: if_splits)
  have hi2: "b \<le> 0.482 \<Longrightarrow> b' \<le> 0.4667"
    using rt(2) unfolding b'_def a_def s_def by (simp split: if_splits)
  have t: "baseline (rt\<lparr>lastDetectAt := now\<rparr>) \<noteq> None" "\<not> recalibrating (rt\<lparr>lastDetectAt := now\<rparr>)"
    using rt by simp_all
  have "stableGesture r0 = IDLE" "baseline r0 = Some b" "idleFrames r0 = idleFrames rt"
    using rt by (simp_all add: r0_def)
  from adaptBaseline_idle [OF this(1,2), of s] this(3)
  have ab: "adaptBaseline s r0 = r0\<lparr>idleFrames := idleFrames rt + 1, baseline := Some b'\<rparr>"
    by (simp add: b'_def a_def)
  have eg: "estimateGesture landmarks (rt\<lparr>lastDetectAt := now\<rparr>) now = trackStep tr v now r0"
    unfolding estimateGesture_tracking [OF t tier]
    by (simp add: v_def r0_def cong: option.case_cong)
  have "\<bar>s - b'\<bar> \<le> 0.35" using lo hi by (simp add: s_def)
  then have "\<not> (stableGesture r0 = IDLE \<and> \<bar>signal tr - the (baseline (adaptBaseline (signal tr) r0))\<bar> > 0.35)"
    by (simp add: ab)
  from trackStep_no_drift [OF this, of v now]
  have ts: "trackStep tr v now r0 = debounce c now r1"
    by (simp add: ab c_def r1_def)
  have r1: "stableGesture r1 = IDLE" "pendingGesture r1 = pendingGesture rt" "\<not> recalibrating r1"
    "baseline r1 = Some b'" "lastSignal r1 = Some s"
    using rt by (simp_all add: r1_def r0_def)
  have "c = IDLE \<or> (c = JUMP \<and> pendingGesture rt \<noteq> Some JUMP)"
  proof (cases "b \<le> 0.482 \<and> lastSignal rt = Some 0.38")
    case True
    then have "v = 0" by (simp add: v_def s_def)
    with small_step_candidate(2) [OF lo hi s_def] hi2 True show ?thesis by (simp add: c_def)
  next
    case False
    with first have "pendingGesture rt \<noteq> Some JUMP" by blast
    with small_step_candidate(1) [OF lo hi s_def, of v] show ?thesis
      by (cases c) (simp_all add: c_def)
  qed
  then have db: "fst (debounce c now r1) = IDLE \<and> stableGesture (snd (debounce c now r1)) = IDLE"
    using r1 by (auto simp: debounce_same debounce_new)
  have keep: "recalibrating (snd (debounce c now r1)) = recalibrating r1"
    "baseline (snd (debounce c now r1)) = baseline r1"
    "lastSignal (snd (debounce c now r1)) = lastSignal r1" by simp_all
  have "processFrame (DetectionResult (Some landmarks)) now (rt, st) =
      (snd (debounce c now r1),
       \<lparr>gesture = fst (debounce c now r1), status = StatusTracking, calibrationProgress = 1,
        errorMessage = errorMessage st, publishedTier = Tier1\<rparr>)"
    unfolding processFrame_usable [OF fr(1) tier] eg ts using keep r1 by (simp add: Let_def)
  with step have "rt' = snd (debounce c now r1)" "gesture st' = fst (debounce c now r1)"
    by auto
  with db keep r1 lo hi show ?thesis by (simp add: s_def)
qed


lemma small_step_frames:
  assumes "\<forall>f \<in> set frames. 13 \<le> length (fst f) \<and>
             computeTierSignal (fst f) = Some \<lparr>tier = Tier1, signal = 0.38, thresholdMultiplier = 1\<rparr>"
    and "baseline rt = Some b" "0.38 \<le> b" "b \<le> 0.482" "\<not> recalibrating rt"
      "stableGesture rt = IDLE" "lastSignal rt = Some 0.38" "gesture st = IDLE"
  shows "gesture (snd (processFrames (map detected frames) (rt, st))) = IDLE \<and>
         stableGesture (fst (processFrames (map detected frames) (rt, st))) = IDLE"
  using assms
proof (induction frames arbitrary: rt st b)
  case Nil
  then show ?case by simp
next
  case (Cons f frames)
  obtain rt1 st1 where step: "processFrame (DetectionResult (Some (fst f))) (snd f) (rt, st) = (rt1, st1)"
    by (cases "processFrame (DetectionResult (Some (fst f))) (snd f) (rt, st)")
  from Cons.prems(1) have fr: "13 \<le> length (fst f)"
    "computeTierSignal (fst f) = Some \<lparr>tier = Tier1, signal = 0.38, thresholdMultiplier = 1\<rparr>"
    and rest: "\<forall>f \<in> set frames. 13 \<le> length (fst f) \<and>
             computeTierSignal (fst f) = Some \<lparr>tier = Tier1, signal = 0.38, thresholdMultiplier = 1\<rparr>"
    by simp_all
  from Cons.prems(3,4) have b: "0.38 \<le> b" "b \<le> 0.5" by simp_all
  have "b \<le> 0.482 \<and> lastSignal rt = Some 0.38 \<or> pendingGesture rt \<noteq> Some JUMP"
    using Cons.prems(4,7) by simp
  from small_step_frame [OF fr Cons.prems(2) b Cons.prems(5,6) this step]
  obtain b1 where one: "gesture st1 = IDLE" "stableGesture rt1 = IDLE" "\<not> recalibrating rt1"
    "baseline rt1 = Some b1" "0.38 \<le> b1" "b1 \<le> 0.482" "lastSignal rt1 = Some 0.38"
    by blast
  from Cons.IH [OF rest one(4,5,6,3,2,7,1)] show ?case
    by (simp add: processFrames_Cons step)
qed

lemma adaptBaseline_driftFrames_upd [simp]:
  "adaptBaseline x (r\<lparr>driftFrames := d\<rparr>) = (adaptBaseline x r)\<lparr>driftFrames := d\<rparr>"
  by (simp add: adaptBaseline_def Let_def)

text \<open>A tracking frame either enters recalibration or ends in the debounce.\<close>

lemma trackStep_cases:
  "trackStep tr v now r =
     (if stableGesture r = IDLE \<and>
         \<bar>signal tr - the (baseline (adaptBaseline (signal tr) r))\<bar> > 0.35 \<and>
         driftFrames r + 1 \<ge> 15
      then (IDLE, (adaptBaseline (signal tr) r)\<lparr>recalibrating := True,
                    calibrationBuffer := [signal tr], driftFrames := 0\<rparr>)
      else debounce (gestureCandidate (the (baseline (adaptBaseline (signal tr) r))) (signal tr)
                       (thresholdMultiplier tr) v) now
             ((adaptBaseline (signal tr) r)
                \<lparr>driftFrames :=
                   (if stableGesture r = IDLE \<and>
                       \<bar>signal tr - the (baseline (adaptBaseline (signal tr) r))\<bar> > 0.35
                    then driftFrames r + 1 else 0)\<rparr>))"
  unfolding trackStep_def Let_def RECALIBRATION_DRIFT_THRESHOLD_def CALIBRATION_FRAMES_def
  by auto

text \<open>A frame with a raw candidate hands that candidate to the debounce, on a runtime
  whose debounce fields are those the frame met.\<close>

lemma rawCandidate_frame:
  assumes "rawCandidate landmarks rt = Some c"
  shows "\<exists>r tr. computeTierSignal landmarks = Some tr \<and> 13 \<le> length landmarks \<and>
           baseline rt \<noteq> None \<and> \<not> recalibrating rt \<and>
           stableGesture r = stableGesture rt \<and> pendingGesture r = pendingGesture rt \<and>
           pendingSince r = pendingSince rt \<and> \<not> recalibrating r \<and>
           baseline r = baseline (adaptBaseline (signal tr) rt) \<and> baseline r \<noteq> None \<and>
           c = gestureCandidate (the (baseline r)) (signal tr) (thresholdMultiplier tr)
                 (case lastSignal rt of None \<Rightarrow> 0 | Some l \<Rightarrow> l - signal tr) \<and>
           processFrame (DetectionResult (Some landmarks)) now (rt, st) =
             (snd (debounce c now r),
              \<lparr>gesture = fst (debounce c now r), status = StatusTracking,
               calibrationProgress = 1, errorMessage = errorMessage st,
               publishedTier = tier tr\<rparr>)"
proof -
  from assms have len: "13 \<le> length landmarks" and b: "baseline rt \<noteq> None"
    and nr: "\<not> recalibrating rt"
    by (auto simp: rawCandidate_def split: if_splits)
  from assms len b nr obtain tr where tr: "computeTierSignal landmarks = Some tr"
    by (auto simp: rawCandidate_def split: option.splits)
  define v where "v = (case lastSignal rt of None \<Rightarrow> 0 | Some l \<Rightarrow> l - signal tr)"
  define r0 where "r0 = rt\<lparr>lastDetectAt := now, missingFrames := 0, trackingTier := tier tr,
                          lastSignal := Some (signal tr)\<rparr>"
  define bb where "bb = the (baseline (adaptBaseline (signal tr) rt))"
  define trig where "trig \<longleftrightarrow> stableGesture rt = IDLE \<and> \<bar>signal tr - bb\<bar> > 0.35 \<and> driftFrames rt + 1 \<ge> 15"
  define r where "r = (adaptBaseline (signal tr) r0)
      \<lparr>driftFrames := (if stableGesture rt = IDLE \<and> \<bar>signal tr - bb\<bar> > 0.35 then driftFrames rt + 1 else 0)\<rparr>"
  have r0: "stableGesture r0 = stableGesture rt" "driftFrames r0 = driftFrames rt"
    "baseline (adaptBaseline (signal tr) r0) = baseline (adaptBaseline (signal tr) rt)"
    by (simp_all add: r0_def)
  from assms len b nr tr have nt: "\<not> trig" and c: "c = gestureCandidate bb (signal tr) (thresholdMultiplier tr) v"
    by (auto simp: rawCandidate_def Let_def trig_def bb_def v_def constants_defs
        split: if_splits)
  have t: "baseline (rt\<lparr>lastDetectAt := now\<rparr>) \<noteq> None" "\<not> recalibrating (rt\<lparr>lastDetectAt := now\<rparr>)"
    using b nr by simp_all
  have eg: "estimateGesture landmarks (rt\<lparr>lastDetectAt := now\<rparr>) now = trackStep tr v now r0"
    unfolding estimateGesture_tracking [OF t tr]
    by (simp add: v_def r0_def cong: option.case_cong)
  have ts: "trackStep tr v now r0 = debounce c now r"
    using nt unfolding trackStep_cases r0 bb_def [symmetric] c r_def trig_def
    by auto
  have fields: "stableGesture r = stableGesture rt" "pendingGesture r = pendingGesture rt"
    "pendingSince r = pendingSince rt" "\<not> recalibrating r"
    "baseline r = baseline (adaptBaseline (signal tr) rt)" "trackingTier r = tier tr"
    using nr by (simp_all add: r_def r0_def)
  have bne: "baseline r \<noteq> None"
    unfolding fields(5) using b by (rule adaptBaseline_baseline)
  have pf: "processFrame (DetectionResult (Some landmarks)) now (rt, st) =
             (snd (debounce c now r),
              \<lparr>gesture = fst (debounce c now r), status = StatusTracking,
               calibrationProgress = 1, errorMessage = errorMessage st,
               publishedTier = tier tr\<rparr>)"
    unfolding processFrame_usable [OF len tr] eg ts using fields bne
    by (simp add: Let_def del: not_None_eq)
  have "c = gestureCandidate (the (baseline r)) (signal tr) (thresholdMultiplier tr)
                 (case lastSignal rt of None \<Rightarrow> 0 | Some l \<Rightarrow> l - signal tr)"
    unfolding c fields(5) bb_def v_def ..
  with tr len b nr fields bne pf show ?thesis
    by blast
qed


lemma debounce_change:
  assumes "stableGesture (snd (debounce c now r)) \<noteq> stableGesture r"
  shows "c = stableGesture (snd (debounce c now r)) \<and> pendingGesture r = Some c \<and>
         now - pendingSince r \<ge> 90"
  using assms by (auto simp: debounce_def Let_def DEBOUNCE_MS_def split: if_splits)

text \<open>A frame without a raw candidate leaves the stable gesture alone.\<close>

lemma no_candidate_frame:
  assumes "rawCandidate landmarks rt = None"
  shows "stableGesture (fst (processFrame (DetectionResult (Some landmarks)) now (rt, st))) =
         stableGesture rt"
proof (cases "length landmarks < 13")
  case True
  then show ?thesis by (simp add: processFrame_absent)
next
  case False
  then have len: "13 \<le> length landmarks" by simp
  show ?thesis
  proof (cases "computeTierSignal landmarks")
    case None
    then show ?thesis
      by (simp add: processFrame_present [OF len] estimateGesture_None split_beta)
  next
    case (Some tr)
    show ?thesis
    proof (cases "baseline rt = None \<or> recalibrating rt")
      case True
      then have "baseline (rt\<lparr>lastDetectAt := now\<rparr>) = None \<or> recalibrating (rt\<lparr>lastDetectAt := now\<rparr>)"
        by simp
      from estimateGesture_calibrating [OF this Some, of now] show ?thesis
        by (simp add: processFrame_usable [OF len Some] Let_def)
    next
      case False
      then have t: "baseline (rt\<lparr>lastDetectAt := now\<rparr>) \<noteq> None"
        "\<not> recalibrating (rt\<lparr>lastDetectAt := now\<rparr>)" by simp_all
      from assms len Some False
      have trig: "stableGesture rt = IDLE \<and>
          \<bar>signal tr - the (baseline (adaptBaseline (signal tr) rt))\<bar> > 0.35 \<and>
          driftFrames rt + 1 \<ge> 15"
        by (simp add: rawCandidate_def Let_def constants_defs split: if_splits)
      show ?thesis
        unfolding processFrame_usable [OF len Some] estimateGesture_tracking [OF t Some]
          trackStep_cases
        using trig by (simp add: Let_def)
    qed
  qed
qed

text \<open>A tracking frame with a usable signal has a raw candidate unless it enters
  recalibration.\<close>

lemma no_candidate_enters:
  assumes "13 \<le> length landmarks" "computeTierSignal landmarks = Some tr"
    "baseline rt \<noteq> None" "\<not> recalibrating rt" "rawCandidate landmarks rt = None"
  shows "recalibrating (fst (processFrame (DetectionResult (Some landmarks)) now (rt, st)))"
proof -
  have t: "baseline (rt\<lparr>lastDetectAt := now\<rparr>) \<noteq> None"
    "\<not> recalibrating (rt\<lparr>lastDetectAt := now\<rparr>)" using assms(3,4) by simp_all
  from assms
  have trig: "stableGesture rt = IDLE \<and>
      \<bar>signal tr - the (baseline (adaptBaseline (signal tr) rt))\<bar> > 0.35 \<and>
      driftFrames rt + 1 \<ge> 15"
    by (simp add: rawCandidate_def Let_def constants_defs split: if_splits)
  show ?thesis
    unfolding processFrame_usable [OF assms(1,2)] estimateGesture_tracking [OF t assms(2)]
      trackStep_cases
    using trig by (simp add: Let_def)
qed

lemma gestureCandidate_rule:
  "(gestureCandidate b s m v = JUMP \<longleftrightarrow>
      b - s > 0.10 * m \<or> (b - s > 0.065 * m \<and> v > 0.010 * m)) \<and>
   (gestureCandidate b s m v = DUCK \<longleftrightarrow>
      \<not> (b - s > 0.10 * m \<or> (b - s > 0.065 * m \<and> v > 0.010 * m)) \<and> s - b > 0.09 * m) \<and>
   (gestureCandidate b s m v = IDLE \<longleftrightarrow>
      \<not> (b - s > 0.10 * m \<or> (b - s > 0.065 * m \<and> v > 0.010 * m)) \<and> \<not> s - b > 0.09 * m)"
  by (simp add: gestureCandidate_def Let_def constants_defs)

lemma adaptBaseline_value:
  "baseline r \<noteq> None \<Longrightarrow>
   baseline (adaptBaseline x r) =
     Some (if stableGesture r = IDLE
           then the (baseline r) * (if idleFrames r + 1 > 60 then 0.75 else 0.85) +
                x * (1 - (if idleFrames r + 1 > 60 then 0.75 else 0.85))
           else the (baseline r))"
  by (auto simp: adaptBaseline_def Let_def constants_defs)

lemma pendingJumpRuntime_reached:
  "processFrames (map detected (holdFrames 0.30 510 34 3)) (trackingRuntime 0.5 510, trackingState) =
     (pendingJumpRuntime, trackingState)"
  by (simp add: run_defs trackingState_def pendingJumpRuntime_def del: not_None_eq)

section \<open>Claims\<close>

text \<open>
  C3. Tier extraction returns, in priority order: tier 1 with signal
  (0.52 * meanHeadY + 0.48 * shoulderMidY) / max(shoulderSpanX, 0.09) and multiplier 1.0 when
  both shoulders and at least one head point are usable; else tier 2 with signal
  meanHeadY / max(headSpanX, 0.06) and multiplier 1.2 when at least two head points are
  usable; else tier 3 with signal shoulderMidY / max(shoulderSpanX, 0.09) and multiplier
  0.85 when both shoulders are usable; else no result. The result depends on the landmark
  set only: whatever the runtime and the time, a frame's tier and signal as
  \<^verbatim>\<open>estimateGesture\<close> records them are those of \<open>computeTierSignal\<close> on its landmarks.
\<close>

theorem computeTierSignal_tiers:
  "computeTierSignal landmarks = specTierSignal landmarks \<and>
   (\<forall>tr. computeTierSignal landmarks = Some tr \<longrightarrow>
      trackingTier (snd (estimateGesture landmarks runtime now)) = tier tr \<and>
      lastSignal (snd (estimateGesture landmarks runtime now)) = Some (signal tr))"
  using computeTierSignal_spec [of landmarks] estimateGesture_Some [of landmarks _ runtime now]
  by blast

theorem computeTierSignal_tiers_witness:
  "computeTierSignal (tier1Frame 0.38) = Some \<lparr>tier = Tier1, signal = 0.38, thresholdMultiplier = 1\<rparr> \<and>
   specTierSignal (tier1Frame 0.38) = Some \<lparr>tier = Tier1, signal = 0.38, thresholdMultiplier = 1\<rparr> \<and>
   trackingTier (snd (estimateGesture (tier1Frame 0.38) createRuntime 0)) = Tier1 \<and>
   lastSignal (snd (estimateGesture (tier1Frame 0.38) createRuntime 0)) = Some 0.38"
  using computeTierSignal_tiers [of "tier1Frame 0.38" createRuntime 0]
  by simp

text \<open>
  C7. From a missing-frame counter of zero, up to 20 consecutive processed frames without
  a usable signal (no landmarks, fewer than 13, or a failed tier extraction) leave the
  published status different from no-person when it was so before; 21 or more make it
  no-person with gesture IDLE; the counter is the number of such frames; and a frame with
  a successful extraction sets the counter to zero, from any runtime.
\<close>

theorem missing_frames_threshold:
  assumes "missingFrames rt = 0" and "\<forall>f \<in> set frames. failedDetection (fst f)"
  shows
    "(length frames \<le> 20 \<and> status st \<noteq> StatusNoPerson \<longrightarrow>
        status (snd (processFrames frames (rt, st))) \<noteq> StatusNoPerson) \<and>
     (length frames \<ge> 21 \<longrightarrow>
        status (snd (processFrames frames (rt, st))) = StatusNoPerson \<and>
        gesture (snd (processFrames frames (rt, st))) = IDLE) \<and>
     missingFrames (fst (processFrames frames (rt, st))) = length frames \<and>
     (\<forall>landmarks now r s. 13 \<le> length landmarks \<and> computeTierSignal landmarks \<noteq> None \<longrightarrow>
        missingFrames (fst (processFrame (DetectionResult (Some landmarks)) now (r, s))) = 0 \<and>
        missingFrames (snd (estimateGesture landmarks r now)) = 0)"
proof -
  note run = processFrames_failed [OF assms(2), of rt st]
  have reset: "missingFrames (fst (processFrame (DetectionResult (Some landmarks)) now (r, s))) = 0 \<and>
        missingFrames (snd (estimateGesture landmarks r now)) = 0"
    if "13 \<le> length landmarks \<and> computeTierSignal landmarks \<noteq> None" for landmarks now r s
  proof -
    from that obtain tr where tr: "computeTierSignal landmarks = Some tr" by auto
    from that have len: "13 \<le> length landmarks" by simp
    show ?thesis
      using estimateGesture_Some [OF tr, of "r\<lparr>lastDetectAt := now\<rparr>" now]
        estimateGesture_Some [OF tr, of r now]
      by (simp add: processFrame_present [OF len] split_beta MAX_MISSING_FRAMES_def)
  qed
  have "length frames \<ge> 21 \<Longrightarrow> frames \<noteq> []" by auto
  with run assms(1) reset show ?thesis
    by (simp add: MAX_MISSING_FRAMES_def)
qed

theorem missing_frames_threshold_witness:
  "missingFrames createRuntime = 0 \<and>
   status (snd (processFrames (replicate 20 (DetectionResult (Some emptyFrame), 0))
                  (createRuntime, INITIAL_STATE))) \<noteq> StatusNoPerson \<and>
   status (snd (processFrames (replicate 21 (DetectionResult None, 0))
                  (createRuntime, INITIAL_STATE))) = StatusNoPerson \<and>
   missingFrames (fst (processFrame (DetectionResult (Some (tier1Frame 0.5))) 0
                  (fst (processFrames (replicate 21 (DetectionResult None, 0))
                     (createRuntime, INITIAL_STATE)), INITIAL_STATE))) = 0"
proof -
  have m0: "missingFrames createRuntime = 0" by (simp add: createRuntime_def)
  have f20: "\<forall>f \<in> set (replicate 20 (DetectionResult (Some emptyFrame), 0::real)). failedDetection (fst f)"
    by simp
  have f21: "\<forall>f \<in> set (replicate 21 (DetectionResult None, 0::real)). failedDetection (fst f)"
    by simp
  note t20 = missing_frames_threshold [OF m0 f20, of INITIAL_STATE]
  note t21 = missing_frames_threshold [OF m0 f21, of INITIAL_STATE]
  note reset = t21 [THEN conjunct2, THEN conjunct2, THEN conjunct2, rule_format,
      of "tier1Frame 0.5" 0 _ INITIAL_STATE, THEN conjunct1]
  have "13 \<le> length (tier1Frame 0.5) \<and> computeTierSignal (tier1Frame 0.5) \<noteq> None"
    by simp
  with m0 t20 t21 reset show ?thesis
    by (simp add: INITIAL_STATE_def)
qed




text \<open>
  C8. On a processed frame without a usable signal the missing-frame counter goes up by one
  and the calibration and debounce fields are unchanged, but the stored previous signal is
  reset only when tier extraction fails: when the detector returns no landmarks the loop
  counts the frame itself and \<open>lastSignal\<close> keeps its value.
\<close>

theorem absent_landmarks_keep_lastSignal:
  "processFrame (DetectionResult None) 1034 (trackingRuntime 0.5 1000, trackingState) =
     ((trackingRuntime 0.5 1034)\<lparr>missingFrames := 1\<rparr>, trackingState) \<and>
   lastSignal (fst (processFrame (DetectionResult None) 1034
                      (trackingRuntime 0.5 1000, trackingState))) = Some 0.5 \<and>
   lastSignal (fst (processFrame (DetectionResult (Some emptyFrame)) 1034
                      (trackingRuntime 0.5 1000, trackingState))) = None"
  by (simp add: processFrame_absent processFrame_present estimateGesture_None
      trackingRuntime_def createRuntime_def MAX_MISSING_FRAMES_def)

text \<open>
  C10. Once the baseline is set it stays set over every sequence of \<open>estimateGesture\<close>
  steps and of processed frames. A frame taken while recalibrating that leaves the runtime
  recalibrating returns IDLE and keeps the baseline's value; the frame that ends the
  recalibration overwrites it with the mean of the collected samples; the frame that enters
  drift-triggered recalibration returns IDLE and leaves the baseline at its idle-adapted
  value, never unset. A runtime built by \<open>createRuntime\<close> has no baseline.
\<close>

theorem baseline_stays_set:
  assumes "baseline rt \<noteq> None"
  shows
    "baseline (estimateGestures frames rt) \<noteq> None \<and>
     baseline (fst (processFrames dframes (rt, st))) \<noteq> None \<and>
     (\<forall>landmarks now.
        recalibrating rt \<and> recalibrating (snd (estimateGesture landmarks rt now)) \<longrightarrow>
        fst (estimateGesture landmarks rt now) = IDLE \<and>
        baseline (snd (estimateGesture landmarks rt now)) = baseline rt) \<and>
     (\<forall>landmarks now.
        recalibrating rt \<and> \<not> recalibrating (snd (estimateGesture landmarks rt now)) \<longrightarrow>
        (\<exists>tr. computeTierSignal landmarks = Some tr \<and>
           baseline (snd (estimateGesture landmarks rt now)) =
             Some (sum_list (calibrationBuffer rt @ [signal tr]) /
                   real (length (calibrationBuffer rt) + 1)))) \<and>
     (\<forall>landmarks now.
        \<not> recalibrating rt \<and> recalibrating (snd (estimateGesture landmarks rt now)) \<longrightarrow>
        (\<exists>tr. computeTierSignal landmarks = Some tr \<and>
           fst (estimateGesture landmarks rt now) = IDLE \<and>
           baseline (snd (estimateGesture landmarks rt now)) =
             Some (the (baseline rt) * (if idleFrames rt + 1 > 60 then 0.75 else 0.85) +
                   signal tr * (1 - (if idleFrames rt + 1 > 60 then 0.75 else 0.85))))) \<and>
     baseline createRuntime = None"
proof (intro conjI allI impI)
  show "baseline (estimateGestures frames rt) \<noteq> None"
    using assms by (rule estimateGestures_baseline)
  show "baseline (fst (processFrames dframes (rt, st))) \<noteq> None"
    using assms by (rule processFrames_baseline)
  show "baseline createRuntime = None" by (simp add: createRuntime_def)
next
  fix landmarks now
  assume "recalibrating rt \<and> recalibrating (snd (estimateGesture landmarks rt now))"
  then have h: "recalibrating rt" "recalibrating (snd (estimateGesture landmarks rt now))"
    by simp_all
  then show "fst (estimateGesture landmarks rt now) = IDLE"
    by (simp add: recalibrating_step)
  from h show "baseline (snd (estimateGesture landmarks rt now)) = baseline rt"
    by (cases "computeTierSignal landmarks")
       (simp_all add: recalibrating_step calibrationStep_eq split: if_splits)
next
  fix landmarks now
  assume "recalibrating rt \<and> \<not> recalibrating (snd (estimateGesture landmarks rt now))"
  then have h: "recalibrating rt" "\<not> recalibrating (snd (estimateGesture landmarks rt now))"
    by simp_all
  then show "\<exists>tr. computeTierSignal landmarks = Some tr \<and>
           baseline (snd (estimateGesture landmarks rt now)) =
             Some (sum_list (calibrationBuffer rt @ [signal tr]) /
                   real (length (calibrationBuffer rt) + 1))"
    by (cases "computeTierSignal landmarks")
       (simp_all add: recalibrating_step calibrationStep_eq split: if_splits)
next
  fix landmarks now
  assume "\<not> recalibrating rt \<and> recalibrating (snd (estimateGesture landmarks rt now))"
  then show "\<exists>tr. computeTierSignal landmarks = Some tr \<and>
           fst (estimateGesture landmarks rt now) = IDLE \<and>
           baseline (snd (estimateGesture landmarks rt now)) =
             Some (the (baseline rt) * (if idleFrames rt + 1 > 60 then 0.75 else 0.85) +
                   signal tr * (1 - (if idleFrames rt + 1 > 60 then 0.75 else 0.85)))"
    using entering_recalibration [of rt landmarks now] by blast
qed

theorem baseline_stays_set_witness:
  "baseline (trackingRuntime 0.5 1000) \<noteq> None \<and>
   baseline (estimateGestures [(tier1Frame 0.38, 1034), (emptyFrame, 1068)]
               (trackingRuntime 0.5 1000)) = Some 0.482 \<and>
   recalibrating ((trackingRuntime 0.5 1000)\<lparr>recalibrating := True, calibrationBuffer := [0.9]\<rparr>) \<and>
   recalibrating (snd (estimateGesture (tier1Frame 0.9)
      ((trackingRuntime 0.5 1000)\<lparr>recalibrating := True, calibrationBuffer := [0.9]\<rparr>) 1034)) \<and>
   baseline (snd (estimateGesture (tier1Frame 0.9)
      ((trackingRuntime 0.5 1000)\<lparr>recalibrating := True, calibrationBuffer := [0.9]\<rparr>) 1034)) =
     Some 0.5"
proof -
  have a: "baseline (trackingRuntime 0.5 1000) \<noteq> None"
    by (simp add: trackingRuntime_def)
  have b: "baseline ((trackingRuntime 0.5 1000)\<lparr>recalibrating := True, calibrationBuffer := [0.9]\<rparr>) \<noteq> None"
    by (simp add: trackingRuntime_def)
  show ?thesis
    using baseline_stays_set [OF a, of "[(tier1Frame 0.38, 1034), (emptyFrame, 1068)]" "[]" trackingState]
      baseline_stays_set [OF b, of "[]" "[]" trackingState]
    by (simp add: eval_defs)
qed



text \<open>
  C5 (amended). When the stable gesture is IDLE and the signal differs from the baseline (as
  adapted on the frame) by more than 0.35 on consecutive processed frames, the frame that
  brings the drift counter to 15 enters recalibration with the buffer reseeded to that
  frame's sample. Recalibration then stays on, with gesture IDLE, during the next 8
  usable samples and completes on the 9th: the baseline becomes the mean of the ten
  collected samples (the triggering one and the nine further ones), the buffer is cleared
  and the status is tracking again.
\<close>

theorem drift_recalibration:
  assumes "driftRun frames (rt, st)" and "driftFrames rt + length frames = 15" and "frames \<noteq> []"
    and "usableSignal (fst (last frames)) = Some x"
    and "map (\<lambda>f. usableSignal (fst f)) further = map Some ss" and "length ss = 9"
  shows
    "recalibrating (fst (processFrames (map detected frames) (rt, st))) \<and>
     calibrationBuffer (fst (processFrames (map detected frames) (rt, st))) = [x] \<and>
     (\<forall>k<9. recalibrating (fst (processFrames (map detected (frames @ take k further)) (rt, st))) \<and>
            gesture (snd (processFrames (map detected (frames @ take k further)) (rt, st))) = IDLE) \<and>
     \<not> recalibrating (fst (processFrames (map detected (frames @ further)) (rt, st))) \<and>
     baseline (fst (processFrames (map detected (frames @ further)) (rt, st))) =
       Some (sum_list (x # ss) / 10) \<and>
     calibrationBuffer (fst (processFrames (map detected (frames @ further)) (rt, st))) = [] \<and>
     status (snd (processFrames (map detected (frames @ further)) (rt, st))) = StatusTracking"
proof -
  define fs where "fs = butlast frames"
  define f where "f = last frames"
  have frames: "frames = fs @ [f]" using assms(3) by (simp add: fs_def f_def)
  obtain rtp stp where runp: "processFrames (map detected fs) (rt, st) = (rtp, stp)"
    by (cases "processFrames (map detected fs) (rt, st)")
  obtain rt1 st1 where step: "processFrame (DetectionResult (Some (fst f))) (snd f) (rtp, stp) = (rt1, st1)"
    by (cases "processFrame (DetectionResult (Some (fst f))) (snd f) (rtp, stp)")
  have run1: "processFrames (map detected frames) (rt, st) = (rt1, st1)"
    unfolding frames by (simp add: processFrames_append processFrames_Cons runp step)
  from assms(1) have dfs: "driftRun fs (rt, st)" and df: "driftFrame (fst f) rtp"
    unfolding frames by (simp_all add: driftRun_append runp)
  have "driftFrames rt + length fs < 15" using assms(2) unfolding frames by simp
  from drift_frames [OF dfs this runp] assms(2) have "driftFrames rtp + 1 = 15"
    unfolding frames by simp
  with drift_frame [OF df assms(4) [folded f_def] step]
  have entered: "recalibrating rt1" "calibrationBuffer rt1 = [x]" "baseline rt1 \<noteq> None"
    "gesture st1 = IDLE" by simp_all
  have mode: "baseline rt1 = None \<or> recalibrating rt1" using entered by simp
  have len: "length further = 9" using assms(5,6) by (metis length_map)
  have during: "recalibrating (fst (processFrames (map detected (frames @ take k further)) (rt, st))) \<and>
            gesture (snd (processFrames (map detected (frames @ take k further)) (rt, st))) = IDLE"
    if "k < 9" for k
  proof -
    obtain rtk stk where runk: "processFrames (map detected (take k further)) (rt1, st1) = (rtk, stk)"
      by (cases "processFrames (map detected (take k further)) (rt1, st1)")
    have sk: "map (\<lambda>f. usableSignal (fst f)) (take k further) = map Some (take k ss)"
      using assms(5) by (simp add: take_map [symmetric])
    have "length (calibrationBuffer rt1) + length (take k ss) < (if recalibrating rt1 then 10 else 15)"
      using entered that by simp
    note c = calibrating_frames [OF mode sk this runk]
    have "gesture stk = IDLE"
    proof (cases "take k further = []")
      case True
      with runk entered show ?thesis by simp
    next
      case False
      with c show ?thesis by simp
    qed
    with c entered show ?thesis
      by (simp add: processFrames_append run1 runk)
  qed
  define gs where "gs = butlast further"
  define g where "g = last further"
  have fne: "further \<noteq> []" using len by auto
  have sne: "ss \<noteq> []" using assms(6) by auto
  have further: "further = gs @ [g]" using fne by (simp add: gs_def g_def)
  have "map (\<lambda>f. usableSignal (fst f)) gs = butlast (map (\<lambda>f. usableSignal (fst f)) further)"
    unfolding gs_def by (rule map_butlast)
  also have "\<dots> = map Some (butlast ss)"
    unfolding assms(5) by (rule map_butlast [symmetric])
  finally have sg: "map (\<lambda>f. usableSignal (fst f)) gs = map Some (butlast ss)" .
  have "usableSignal (fst g) = last (map (\<lambda>f. usableSignal (fst f)) further)"
    unfolding g_def using fne by (rule last_map [symmetric])
  also have "\<dots> = Some (last ss)"
    unfolding assms(5) using sne by (rule last_map)
  finally have sl: "usableSignal (fst g) = Some (last ss)" .
  obtain rt8 st8 where run8: "processFrames (map detected gs) (rt1, st1) = (rt8, st8)"
    by (cases "processFrames (map detected gs) (rt1, st1)")
  obtain rt9 st9 where step9: "processFrame (DetectionResult (Some (fst g))) (snd g) (rt8, st8) = (rt9, st9)"
    by (cases "processFrame (DetectionResult (Some (fst g))) (snd g) (rt8, st8)")
  have "length (calibrationBuffer rt1) + length (butlast ss) < (if recalibrating rt1 then 10 else 15)"
    using entered assms(6) by simp
  note c8 = calibrating_frames [OF mode sg this run8]
  have mode8: "baseline rt8 = None \<or> recalibrating rt8" using c8 entered by simp
  have "length (calibrationBuffer rt8) + 1 \<ge> (if recalibrating rt8 then 10 else 15)"
    using c8 entered assms(6) by simp
  note fin = calibration_final_frame [OF mode8 sl this step9]
  have run9: "processFrames (map detected (frames @ further)) (rt, st) = (rt9, st9)"
    unfolding further
    by (simp add: processFrames_append processFrames_Cons run1 run8 step9)
  have "calibrationBuffer rt8 @ [last ss] = x # ss"
    using c8 entered sne by (simp add: append_butlast_last_id)
  moreover have "length (calibrationBuffer rt8) + 1 = 10" using c8 entered assms(6) by simp
  ultimately have "baseline rt9 = Some (sum_list (x # ss) / 10)" using fin by simp
  with fin have completed: "\<not> recalibrating rt9" "baseline rt9 = Some (sum_list (x # ss) / 10)"
    "calibrationBuffer rt9 = []" "status st9 = StatusTracking" by simp_all
  show ?thesis
    unfolding run1 run9 fst_conv snd_conv
    using entered(1,2) during completed by blast
qed

theorem drift_recalibration_witness:
  "driftRun swingFrames (trackingRuntime 0.5 510, trackingState) \<and>
   driftFrames (trackingRuntime 0.5 510) + length swingFrames = 15 \<and>
   recalibrating (fst (processFrames (map detected swingFrames)
                         (trackingRuntime 0.5 510, trackingState))) \<and>
   calibrationBuffer (fst (processFrames (map detected swingFrames)
                             (trackingRuntime 0.5 510, trackingState))) = [1] \<and>
   \<not> recalibrating (fst (processFrames (map detected (swingFrames @ settleFrames 9))
                           (trackingRuntime 0.5 510, trackingState))) \<and>
   baseline (fst (processFrames (map detected (swingFrames @ settleFrames 9))
                    (trackingRuntime 0.5 510, trackingState))) = Some 0.55 \<and>
   status (snd (processFrames (map detected (swingFrames @ settleFrames 9))
                  (trackingRuntime 0.5 510, trackingState))) = StatusTracking"
proof -
  have n: "driftFrames (trackingRuntime 0.5 510) + length swingFrames = 15"
    by (simp add: trackingRuntime_def createRuntime_def swingFrames_def)
  have ne: "swingFrames \<noteq> []" by (simp add: swingFrames_def upt_rec)
  have len: "length [0.5, 0.5, 0.5, 0.5, 0.5, 0.5, 0.5, 0.5, 0.5 :: real] = 9" by simp
  show ?thesis
    using drift_recalibration [OF swing_run n ne swing_last settle_signals len] swing_run n
    by simp
qed

text \<open>C5 as stated fails: after the triggering frame, nine further samples already end
  the recalibration, with the mean taken over the triggering sample and those nine; the
  tenth further sample is classified against that baseline and adapts it.\<close>

theorem recalibration_ten_samples_counterexample:
  "recalibrating (fst (processFrames (map detected swingFrames)
                         (trackingRuntime 0.5 510, trackingState))) \<and>
   calibrationBuffer (fst (processFrames (map detected swingFrames)
                             (trackingRuntime 0.5 510, trackingState))) = [1] \<and>
   \<not> recalibrating (fst (processFrames (map detected (swingFrames @ settleFrames 9))
                           (trackingRuntime 0.5 510, trackingState))) \<and>
   baseline (fst (processFrames (map detected (swingFrames @ settleFrames 9))
                    (trackingRuntime 0.5 510, trackingState))) = Some ((1 + 9 * 0.5) / 10) \<and>
   baseline (fst (processFrames (map detected (swingFrames @ settleFrames 10))
                    (trackingRuntime 0.5 510, trackingState))) = Some 0.5425"
  by (simp add: swingFrames_def settleFrames_def upt_rec processFrames_Cons processFrame_usable
      eval_defs)








end
